theory Spec2Isabelle
  imports Complex_Main "HOL-Library.Word"
begin

unbundle bit_operations_syntax

section \<open>JavaScript values used by the wand utility\<close>

text \<open>
  A \<open>Uint8Array\<close> element is an 8-bit word and a JavaScript string is a list of
  UTF-16 code units. \<open>str\<close> writes an ASCII literal as such a string.
\<close>

type_synonym byte = "8 word"
type_synonym jsstring = "16 word list"

definition str :: "string \<Rightarrow> jsstring" where
  "str s = map of_char s"

text \<open>
  The numbers the code computes with are integers, and \<open>NaN\<close> where \<open>parseInt\<close>
  finds no digit. Storing a number into a \<open>Uint8Array\<close> reduces it modulo 256;
  \<open>NaN\<close> is stored as 0.
\<close>

datatype number = NaN | Num int

fun ToUint8 :: "number \<Rightarrow> byte" where
  "ToUint8 NaN = 0"
| "ToUint8 (Num i) = word_of_int i"

text \<open>White space as \<open>String.prototype.trim\<close> and \<open>parseInt\<close> skip it.\<close>

definition isWhiteSpace :: "16 word \<Rightarrow> bool" where
  "isWhiteSpace c \<longleftrightarrow>
     c \<in> set [0x09, 0x0A, 0x0B, 0x0C, 0x0D, 0x20, 0xA0, 0x1680, 0x2028, 0x2029,
                0x202F, 0x205F, 0x3000, 0xFEFF]
     \<or> (0x2000 \<le> c \<and> c \<le> 0x200A)"

definition trim :: "jsstring \<Rightarrow> jsstring" where
  "trim s = rev (dropWhile isWhiteSpace (rev (dropWhile isWhiteSpace s)))"

text \<open>\<open>s.substring(a, b)\<close> and \<open>s.substring(a)\<close>; both clamp to the length.\<close>

definition substring :: "nat \<Rightarrow> nat \<Rightarrow> jsstring \<Rightarrow> jsstring" where
  "substring a b s = take (max a b - min a b) (drop (min a b) s)"

definition substring_from :: "nat \<Rightarrow> jsstring \<Rightarrow> jsstring" where
  "substring_from a s = drop a s"

definition startsWith :: "jsstring \<Rightarrow> jsstring \<Rightarrow> bool" where
  "startsWith p s \<longleftrightarrow> take (length p) s = p"

text \<open>The value of a hexadecimal digit, in either case.\<close>

definition hexval :: "16 word \<Rightarrow> nat option" where
  "hexval c =
     (if 0x30 \<le> c \<and> c \<le> 0x39 then Some (unat c - 48)
      else if 0x41 \<le> c \<and> c \<le> 0x46 then Some (unat c - 55)
      else if 0x61 \<le> c \<and> c \<le> 0x66 then Some (unat c - 87)
      else None)"

definition isHexDigit :: "16 word \<Rightarrow> bool" where
  "isHexDigit c \<longleftrightarrow> hexval c \<noteq> None"

definition digits_value :: "jsstring \<Rightarrow> nat" where
  "digits_value Z = foldl (\<lambda>acc c. case hexval c of Some d \<Rightarrow> 16 * acc + d | None \<Rightarrow> acc) 0 Z"

text \<open>
  \<open>parseInt(s, 16)\<close>: leading white space is skipped, then an optional sign and an
  optional \<open>0x\<close> prefix, and the longest run of hexadecimal digits is read. With no
  digit the result is \<open>NaN\<close>.
\<close>

definition parseInt16 :: "jsstring \<Rightarrow> number" where
  "parseInt16 inputString =
     (let S = dropWhile isWhiteSpace inputString;
          sign = (if take 1 S = str ''-'' then - 1 else 1);
          S1 = (if take 1 S = str ''+'' \<or> take 1 S = str ''-'' then drop 1 S else S);
          S2 = (if take 2 S1 = str ''0x'' \<or> take 2 S1 = str ''0X'' then drop 2 S1 else S1);
          Z = takeWhile isHexDigit S2
      in if Z = [] then NaN else Num (sign * int (digits_value Z)))"

text \<open>\<open>n.toString(16)\<close> and \<open>s.padStart(2, '0')\<close>.\<close>

definition hexchar :: "nat \<Rightarrow> 16 word" where
  "hexchar d = (if d < 10 then of_nat (48 + d) else of_nat (87 + d))"

fun hexdigits :: "nat \<Rightarrow> jsstring" where
  "hexdigits n = (if n < 16 then [hexchar n] else hexdigits (n div 16) @ [hexchar (n mod 16)])"

declare hexdigits.simps [simp del]

fun toString16 :: "number \<Rightarrow> jsstring" where
  "toString16 NaN = str ''NaN''"
| "toString16 (Num i) = (if i < 0 then str ''-'' @ hexdigits (nat (- i)) else hexdigits (nat i))"

definition padStart2 :: "jsstring \<Rightarrow> jsstring" where
  "padStart2 s = replicate (2 - length s) 0x30 @ s"

fun join :: "jsstring \<Rightarrow> jsstring list \<Rightarrow> jsstring" where
  "join sep [] = []"
| "join sep [x] = x"
| "join sep (x # y # ys) = x @ sep @ join sep (y # ys)"

section \<open>types.ts\<close>

text \<open>
  The enumerations of \<open>types.ts\<close>. \<open>LogType.ERROR\<close> is written \<open>ERROR_LOG\<close>,
  since \<open>ConnectionStatus\<close> has an \<open>ERROR\<close> of its own.
\<close>

datatype ConnectionStatus = DISCONNECTED | CONNECTING | CONNECTED | ERROR

datatype LogType = INFO | SPELL | RAW | COMMAND | ERROR_LOG

datatype CommandType = CLEAR_LEDS | BUZZ | CHANGE_LED

text \<open>
  A macro command carries its list key and, by kind, a duration in milliseconds, an LED
  group and a colour of six hexadecimal digits. The panel stores durations as
  \<open>parseInt(..) || 0\<close>, so they are integers of either sign.
\<close>

datatype MacroCommand =
    ClearLedsCommand jsstring
  | BuzzCommand jsstring int
  | ChangeLedCommand jsstring int jsstring int

record OpCodes =
  ClearLeds :: int
  Buzz :: int
  ChangeLed :: int

definition default_opCodes :: OpCodes where
  "default_opCodes = \<lparr>ClearLeds = 0xAA, Buzz = 0xBB, ChangeLed = 0xCC\<rparr>"

section \<open>Encoding a macro (sendMacro)\<close>

text \<open>
  The body of the \<open>switch\<close> in \<open>sendMacro\<close>: the numbers one command pushes onto
  \<open>fullCommandBytes\<close>. \<open>&\<close> and \<open>>>\<close> act on the two's complement bits.
\<close>

fun command_bytes :: "OpCodes \<Rightarrow> MacroCommand \<Rightarrow> number list" where
  "command_bytes opCodes (ClearLedsCommand k) = [Num (ClearLeds opCodes)]"
| "command_bytes opCodes (BuzzCommand k duration) =
     (let durationBuzz = min duration 32767
      in [Num (Buzz opCodes), Num (durationBuzz AND 0xFF), Num (drop_bit 8 durationBuzz AND 0xFF)])"
| "command_bytes opCodes (ChangeLedCommand k groupId hexColor duration) =
     (let r = parseInt16 (substring 0 2 hexColor);
          g = parseInt16 (substring 2 4 hexColor);
          b = parseInt16 (substring 4 6 hexColor);
          durationLed = min duration 32767
      in [Num (ChangeLed opCodes), Num groupId, r, g, b,
          Num (durationLed AND 0xFF), Num (drop_bit 8 durationLed AND 0xFF)])"

text \<open>The \<open>for\<close> loop over the macro, pushing each command's numbers in turn.\<close>

definition fullCommandBytes :: "OpCodes \<Rightarrow> MacroCommand list \<Rightarrow> number list" where
  "fullCommandBytes opCodes macroCommands =
     foldl (\<lambda>acc cmd. acc @ command_bytes opCodes cmd) [] macroCommands"

text \<open>The fixed size the specification gives each kind of command.\<close>

fun contribution :: "MacroCommand \<Rightarrow> nat" where
  "contribution (ClearLedsCommand k) = 1"
| "contribution (BuzzCommand k d) = 3"
| "contribution (ChangeLedCommand k g c d) = 7"

text \<open>The colour channel two hexadecimal digits stand for.\<close>

definition channel :: "16 word \<Rightarrow> 16 word \<Rightarrow> int" where
  "channel hi lo = (case (hexval hi, hexval lo) of
       (Some a, Some b) \<Rightarrow> int (16 * a + b) | _ \<Rightarrow> 0)"

section \<open>The text decoder of the platform\<close>

text \<open>
  \<open>new TextDecoder().decode(bytes)\<close> is the UTF-8 decoder of the Encoding standard,
  not fatal: a malformed sequence decodes to U+FFFD and the offending byte is read
  again. The arguments are the code point so far, the continuation bytes still needed
  and the bounds of the next continuation byte.
\<close>

fun utf8_decode :: "nat \<Rightarrow> nat \<Rightarrow> nat \<Rightarrow> nat \<Rightarrow> byte list \<Rightarrow> nat list" where
  "utf8_decode cp 0 lo hi [] = []"
| "utf8_decode cp (Suc n) lo hi [] = [0xFFFD]"
| "utf8_decode cp 0 lo hi (b # bs) =
     (if b \<le> 0x7F then unat b # utf8_decode 0 0 0x80 0xBF bs
      else if 0xC2 \<le> b \<and> b \<le> 0xDF then utf8_decode (unat (b AND 0x1F)) 1 0x80 0xBF bs
      else if 0xE0 \<le> b \<and> b \<le> 0xEF then
        utf8_decode (unat (b AND 0xF)) 2 (if b = 0xE0 then 0xA0 else 0x80)
          (if b = 0xED then 0x9F else 0xBF) bs
      else if 0xF0 \<le> b \<and> b \<le> 0xF4 then
        utf8_decode (unat (b AND 0x7)) 3 (if b = 0xF0 then 0x90 else 0x80)
          (if b = 0xF4 then 0x8F else 0xBF) bs
      else 0xFFFD # utf8_decode 0 0 0x80 0xBF bs)"
| "utf8_decode cp (Suc n) lo hi (b # bs) =
     (if \<not> (lo \<le> unat b \<and> unat b \<le> hi) then 0xFFFD # utf8_decode 0 0 0x80 0xBF (b # bs)
      else if n = 0 then (cp * 64 + unat (b AND 0x3F)) # utf8_decode 0 0 0x80 0xBF bs
      else utf8_decode (cp * 64 + unat (b AND 0x3F)) n 0x80 0xBF bs)"

text \<open>A code point as UTF-16 code units: itself, or a surrogate pair.\<close>

definition utf16 :: "nat \<Rightarrow> jsstring" where
  "utf16 cp =
     (if cp < 0x10000 then [of_nat cp]
      else [of_nat (0xD800 + (cp - 0x10000) div 0x400), of_nat (0xDC00 + (cp - 0x10000) mod 0x400)])"

text \<open>The decoder drops a byte order mark at the start of the text.\<close>

definition TextDecoder_decode :: "byte list \<Rightarrow> jsstring" where
  "TextDecoder_decode bytes =
     (let cps = utf8_decode 0 0 0x80 0xBF bytes;
          cps' = (case cps of [] \<Rightarrow> [] | c # rest \<Rightarrow> if c = 0xFEFF then rest else cps)
      in concat (map utf16 cps'))"

text \<open>
  The two platform functions \<open>handleNotifications\<close> calls on text: the decoder
  (\<open>None\<close> when it throws) and \<open>String.prototype.toUpperCase\<close>, whose table of
  case mappings is the platform's. \<open>browser up\<close> is a browser whose upper-casing is
  \<open>up\<close>.
\<close>

record platform =
  decode :: "byte list \<Rightarrow> jsstring option"
  toUpperCase :: "jsstring \<Rightarrow> jsstring"

definition browser :: "(jsstring \<Rightarrow> jsstring) \<Rightarrow> platform" where
  "browser up = \<lparr>decode = (\<lambda>bytes. Some (TextDecoder_decode bytes)), toUpperCase = up\<rparr>"

text \<open>On the ASCII text that \<open>toString(16)\<close> yields, upper-casing maps a-z to A-Z.\<close>

definition ascii_upper :: "16 word \<Rightarrow> 16 word" where
  "ascii_upper c = (if 0x61 \<le> c \<and> c \<le> 0x7A then c - 0x20 else c)"

section \<open>The controller: state and the world it acts on\<close>

text \<open>
  What one call of \<open>addLog\<close> reads from the world: \<open>Date.now()\<close>,
  \<open>Math.random()\<close> and \<open>new Date().toLocaleTimeString()\<close>. The identifier of a
  log entry is the sum of the first two, taken here in the reals. The fields \<open>id\<close>,
  \<open>type\<close> and \<open>data\<close> of an entry are written \<open>log_id\<close>, \<open>log_type\<close> and
  \<open>log_data\<close>.
\<close>

record stamp =
  date_now :: int
  math_random :: real
  time_string :: jsstring

record LogEntry =
  log_id :: real
  log_type :: LogType
  message :: jsstring
  log_data :: "jsstring option"
  timestamp :: jsstring

record js_error =
  err_name :: jsstring
  err_message :: jsstring

datatype 'a outcome = Fulfilled 'a | Rejected js_error

record device =
  dev_name :: jsstring
  has_gatt :: bool

text \<open>The calls the code makes on the browser and the Bluetooth stack, in order.\<close>

datatype effect =
    Write "byte list"
  | Delay nat
  | SetInterval nat nat
  | ClearInterval nat
  | SetTimeout nat
  | RequestDevice
  | AddDisconnectListener
  | RemoveDisconnectListener
  | GattConnect
  | GattDisconnect
  | GetPrimaryService
  | GetPrimaryServices
  | GetCharacteristic jsstring
  | GetCharacteristics
  | StartNotifications jsstring
  | StopNotifications jsstring
  | AddValueListener jsstring
  | RemoveValueListener jsstring
  | ConsoleError
  | ConsoleWarn
  | ConsoleLog
  | Alert

text \<open>
  The answers of the world: the clock reading of the k-th log entry, and the outcome
  of the write issued as the k-th effect.
\<close>

record world =
  clock :: "nat \<Rightarrow> stamp"
  write_result :: "nat \<Rightarrow> unit outcome"

text \<open>
  The React state and refs of \<open>App\<close>, with the state of the link, the timers that
  are set and the effects so far. Timer handles are positive integers.
\<close>

record App =
  connectionStatus :: ConnectionStatus
  logs :: "LogEntry list"
  opCodes :: OpCodes
  macroCommands :: "MacroCommand list"
  isOpCodeTestMode :: bool
  opcodeToTest :: int
  deviceRef :: "device option"
  writeCharRef :: "jsstring option"
  keepAliveIntervalRef :: "nat option"
  gatt_connected :: bool
  intervals :: "nat list"
  timeouts :: "(nat \<times> ConnectionStatus) list"
  next_handle :: nat
  effects :: "effect list"

definition App_init :: App where
  "App_init = \<lparr>connectionStatus = DISCONNECTED, logs = [], opCodes = default_opCodes,
     macroCommands = [], isOpCodeTestMode = False, opcodeToTest = 0x01, deviceRef = None,
     writeCharRef = None, keepAliveIntervalRef = None, gatt_connected = False,
     intervals = [], timeouts = [], next_handle = 1, effects = []\<rparr>"

definition TARGET_NAME :: jsstring where
  "TARGET_NAME = str ''MCW''"

definition WRITE_UUID :: jsstring where
  "WRITE_UUID = str ''57420002-587e-48a0-974c-544d6163c577''"

definition NOTIFY_UUID :: jsstring where
  "NOTIFY_UUID = str ''57420003-587e-48a0-974c-544d6163c577''"

definition KEEPALIVE_INTERVAL :: nat where
  "KEEPALIVE_INTERVAL = 5000"

definition KEEPALIVE_COMMAND :: "byte list" where
  "KEEPALIVE_COMMAND = [0x01]"

definition SPELL_DATA_HEADER_LEN :: nat where
  "SPELL_DATA_HEADER_LEN = 4"

definition SPELL_MIN_LEN :: nat where
  "SPELL_MIN_LEN = 7"

definition MTU_PAYLOAD_SIZE :: nat where
  "MTU_PAYLOAD_SIZE = 20"

definition emit :: "effect \<Rightarrow> App \<Rightarrow> App" where
  "emit e s = s\<lparr>effects := effects s @ [e]\<rparr>"

definition addLog :: "world \<Rightarrow> LogType \<Rightarrow> jsstring \<Rightarrow> jsstring option \<Rightarrow> App \<Rightarrow> App" where
  "addLog w type msg d s =
     (let t = clock w (length (logs s))
      in s\<lparr>logs := logs s @
           [\<lparr>log_id = of_int (date_now t) + math_random t, log_type = type, message = msg,
             log_data = d, timestamp = time_string t\<rparr>]\<rparr>)"

section \<open>The controller: notifications\<close>

text \<open>
  \<open>handleNotifications\<close>: an event without a value is ignored. The \<open>try\<close> block
  is the decoding and the test of the name; when the decoder throws, control falls
  through to the raw entry.
\<close>

definition rawHex :: "byte list \<Rightarrow> jsstring" where
  "rawHex data = concat (map (\<lambda>b. padStart2 (toString16 (Num (uint b)))) data)"

definition handleNotifications :: "world \<Rightarrow> platform \<Rightarrow> byte list option \<Rightarrow> App \<Rightarrow> App" where
  "handleNotifications w P val s =
     (case val of
        None \<Rightarrow> s
      | Some data \<Rightarrow>
          (let raw = addLog w RAW (str ''Raw Wand Data'') (Some (rawHex data)) s
           in if length data \<ge> SPELL_MIN_LEN then
                (let spellBytes = drop SPELL_DATA_HEADER_LEN data
                 in case decode P spellBytes of
                      None \<Rightarrow> raw
                    | Some text \<Rightarrow>
                        (let spellName = filter (\<lambda>c. c \<noteq> 0x0000) (trim text)
                         in if spellName \<noteq> [] then
                              addLog w SPELL
                                ([0x2728] @ str '' Spell Detected: '' @ toUpperCase P spellName)
                                (Some (str ''RAW: '' @ rawHex data)) s
                            else raw))
              else raw))"

section \<open>The controller: keep-alive, disconnect and connect\<close>

text \<open>
  \<open>setInterval\<close> hands out a fresh positive handle, so the test
  \<open>if (keepAliveIntervalRef.current)\<close> asks whether a handle is stored.
\<close>

definition startKeepAlive :: "App \<Rightarrow> App" where
  "startKeepAlive s =
     (let s1 = (case keepAliveIntervalRef s of
                  None \<Rightarrow> s
                | Some h \<Rightarrow> emit (ClearInterval h) (s\<lparr>intervals := removeAll h (intervals s)\<rparr>));
          h' = next_handle s1
      in emit (SetInterval h' KEEPALIVE_INTERVAL)
           (s1\<lparr>intervals := h' # intervals s1, keepAliveIntervalRef := Some h',
               next_handle := Suc h'\<rparr>))"

definition stopKeepAlive :: "App \<Rightarrow> App" where
  "stopKeepAlive s =
     (case keepAliveIntervalRef s of
        None \<Rightarrow> s
      | Some h \<Rightarrow>
          emit (ClearInterval h)
            (s\<lparr>intervals := removeAll h (intervals s), keepAliveIntervalRef := None\<rparr>))"

definition disconnect :: "world \<Rightarrow> App \<Rightarrow> App" where
  "disconnect w s =
     (let s1 = stopKeepAlive s;
          s2 = (case deviceRef s1 of
                  None \<Rightarrow> s1
                | Some d \<Rightarrow>
                    (let s' = emit RemoveDisconnectListener s1
                     in if has_gatt d \<and> gatt_connected s'
                        then emit GattDisconnect (s'\<lparr>gatt_connected := False\<rparr>)
                        else s'));
          s3 = s2\<lparr>deviceRef := None, writeCharRef := None, connectionStatus := DISCONNECTED\<rparr>
      in addLog w INFO (str ''Wand disconnected.'') None s3)"

text \<open>
  One write on the write characteristic: the call is recorded and the world answers.
\<close>

definition writeValueWithoutResponse :: "world \<Rightarrow> byte list \<Rightarrow> App \<Rightarrow> unit outcome \<times> App" where
  "writeValueWithoutResponse w data s = (write_result w (length (effects s)), emit (Write data) s)"

text \<open>
  The callback of the keep-alive interval with handle \<open>h\<close>. A cleared interval no
  longer runs its callback.
\<close>

definition keepAlive_callback :: "world \<Rightarrow> nat \<Rightarrow> App \<Rightarrow> App" where
  "keepAlive_callback w h s =
     (if h \<in> set (intervals s) then
        (case writeCharRef s of
           None \<Rightarrow> s
         | Some c \<Rightarrow>
             (case writeValueWithoutResponse w KEEPALIVE_COMMAND s of
                (Fulfilled u, s') \<Rightarrow> s'
              | (Rejected e, s') \<Rightarrow> disconnect w (emit ConsoleError s')))
      else s)"

text \<open>The answers of the browser and the wand to one connect attempt.\<close>

record connect_env =
  bluetooth :: bool
  requestDevice :: "device outcome"
  gatt_connect :: "unit outcome"
  getPrimaryService :: "unit outcome"
  getWriteCharacteristic :: "unit outcome"
  getNotifyCharacteristic :: "unit outcome"
  startNotifications :: "unit outcome"

text \<open>
  The \<open>try\<close> block of \<open>connect\<close>: \<open>Inl\<close> is the error thrown, with the state
  reached when it was thrown.
\<close>

definition connect_try :: "world \<Rightarrow> connect_env \<Rightarrow> App \<Rightarrow> (js_error \<times> App) + App" where
  "connect_try w env s =
     (let s1 = addLog w INFO (str ''Scanning for wand '' @ [0x22] @ TARGET_NAME @ [0x22] @ str ''...'')
                 None (s\<lparr>connectionStatus := CONNECTING\<rparr>);
          s2 = emit RequestDevice s1
      in case requestDevice env of
           Rejected e \<Rightarrow> Inl (e, s2)
         | Fulfilled dev \<Rightarrow>
             if \<not> has_gatt dev then
               Inl (\<lparr>err_name = str ''Error'', err_message = str ''GATT server not available.''\<rparr>, s2)
             else
               (let s3 = emit AddDisconnectListener (s2\<lparr>deviceRef := Some dev\<rparr>);
                    s4 = emit GattConnect
                           (addLog w INFO (str ''Connecting to GATT server...'') None s3)
                in case gatt_connect env of
                     Rejected e \<Rightarrow> Inl (e, s4)
                   | Fulfilled u \<Rightarrow>
                       (let s5 = emit GetPrimaryService
                                   (addLog w INFO (str ''Getting Primary Service...'') None
                                      (s4\<lparr>gatt_connected := True\<rparr>))
                        in case getPrimaryService env of
                             Rejected e \<Rightarrow> Inl (e, s5)
                           | Fulfilled u \<Rightarrow>
                               (let s6 = emit (GetCharacteristic WRITE_UUID)
                                           (addLog w INFO (str ''Getting Characteristics...'') None s5)
                                in case getWriteCharacteristic env of
                                     Rejected e \<Rightarrow> Inl (e, s6)
                                   | Fulfilled u \<Rightarrow>
                                       (let s7 = emit (GetCharacteristic NOTIFY_UUID) s6
                                        in case getNotifyCharacteristic env of
                                             Rejected e \<Rightarrow> Inl (e, s7)
                                           | Fulfilled u \<Rightarrow>
                                               (let s8 = emit (StartNotifications NOTIFY_UUID)
                                                           (addLog w INFO (str ''Starting notifications...'') None
                                                              (s7\<lparr>writeCharRef := Some WRITE_UUID\<rparr>))
                                                in case startNotifications env of
                                                     Rejected e \<Rightarrow> Inl (e, s8)
                                                   | Fulfilled u \<Rightarrow>
                                                       (let s9 = startKeepAlive (emit (AddValueListener NOTIFY_UUID) s8);
                                                            s10 = s9\<lparr>connectionStatus := CONNECTED\<rparr>
                                                        in Inr (addLog w INFO
                                                                  (str ''Successfully connected to '' @ dev_name dev
                                                                     @ str ''. Wand is active!'')
                                                                  None s10))))))))"

text \<open>
  \<open>connect\<close>: whatever the \<open>try\<close> block throws is logged, the status becomes
  \<open>ERROR\<close> and a timer is set that makes it \<open>DISCONNECTED\<close> 3000 ms later.
\<close>

definition connect :: "world \<Rightarrow> connect_env \<Rightarrow> App \<Rightarrow> App" where
  "connect w env s =
     (if \<not> bluetooth env then
        addLog w ERROR_LOG (str ''Web Bluetooth API is not available on this browser.'') None s
      else
        (case connect_try w env s of
           Inr s' \<Rightarrow> s'
         | Inl (error, s') \<Rightarrow>
             (let s1 = addLog w ERROR_LOG (str ''Connection failed: '' @ err_message error) None s';
                  s2 = s1\<lparr>connectionStatus := ERROR\<rparr>
              in emit (SetTimeout 3000) (s2\<lparr>timeouts := timeouts s2 @ [(3000, DISCONNECTED)]\<rparr>))))"

text \<open>The oldest pending timer runs its callback.\<close>

definition timeout_callback :: "App \<Rightarrow> App" where
  "timeout_callback s =
     (case timeouts s of
        [] \<Rightarrow> s
      | (ms, st) # rest \<Rightarrow> s\<lparr>connectionStatus := st, timeouts := rest\<rparr>)"

text \<open>
  The cleanup \<open>App\<close> registers for its unmount, in an effect with an empty dependency
  list: the \<open>connectionStatus\<close> it tests is the one of the first render, \<open>first\<close>.
\<close>

definition unmount_cleanup :: "world \<Rightarrow> ConnectionStatus \<Rightarrow> App \<Rightarrow> App" where
  "unmount_cleanup w first s = (if first = CONNECTED then disconnect w s else s)"

section \<open>The controller: sending\<close>

definition sendData :: "world \<Rightarrow> byte list \<Rightarrow> App \<Rightarrow> App" where
  "sendData w data s =
     (case writeCharRef s of
        None \<Rightarrow>
          addLog w ERROR_LOG (str ''Cannot send data. Write characteristic not available.'') None s
      | Some c \<Rightarrow>
          (case writeValueWithoutResponse w data s of
             (Fulfilled u, s') \<Rightarrow> s'
           | (Rejected error, s') \<Rightarrow>
               addLog w ERROR_LOG (str ''Failed to send data: '' @ err_message error) None s'))"

text \<open>\<open>xs.slice(i, j)\<close> for \<open>0 \<le> i \<le> j\<close>; the end is clamped to the length.\<close>

definition slice :: "nat \<Rightarrow> nat \<Rightarrow> 'a list \<Rightarrow> 'a list" where
  "slice i j xs = take (j - i) (drop i xs)"

text \<open>
  The chunks the second loop of \<open>sendMacro\<close> builds, from index \<open>i\<close> on: each is a
  \<open>Uint8Array\<close> of a slice of at most \<open>MTU_PAYLOAD_SIZE\<close> numbers.
\<close>

function chunks_from :: "nat \<Rightarrow> number list \<Rightarrow> byte list list" where
  "chunks_from i fullBytes =
     (if i < length fullBytes
      then map ToUint8 (slice i (i + MTU_PAYLOAD_SIZE) fullBytes)
             # chunks_from (i + MTU_PAYLOAD_SIZE) fullBytes
      else [])"
  by pat_completeness auto
termination
  by (relation "measure (\<lambda>(i, fullBytes). length fullBytes - i)")
     (auto simp: MTU_PAYLOAD_SIZE_def)

declare chunks_from.simps [simp del]

text \<open>The loop itself: each chunk is sent, then the loop waits 20 ms.\<close>

function send_chunks :: "world \<Rightarrow> nat \<Rightarrow> number list \<Rightarrow> App \<Rightarrow> App" where
  "send_chunks w i fullBytes s =
     (if i < length fullBytes
      then send_chunks w (i + MTU_PAYLOAD_SIZE) fullBytes
             (emit (Delay 20)
                (sendData w (map ToUint8 (slice i (i + MTU_PAYLOAD_SIZE) fullBytes)) s))
      else s)"
  by pat_completeness auto
termination
  by (relation "measure (\<lambda>(w, i, fullBytes, s). length fullBytes - i)")
     (auto simp: MTU_PAYLOAD_SIZE_def)

declare send_chunks.simps [simp del]

definition sendMacro :: "world \<Rightarrow> App \<Rightarrow> App" where
  "sendMacro w s =
     (if length (macroCommands s) = 0 then s
      else
        (let bytes = fullCommandBytes (opCodes s) (macroCommands s);
             s1 = addLog w COMMAND (str ''Sending VFX Macro...'')
                    (Some (str ''Bytes: '' @ join (str '' '') (map (\<lambda>b. padStart2 (toString16 b)) bytes)))
                    s
         in send_chunks w 0 bytes s1))"

section \<open>The controller: opcode discovery\<close>

text \<open>
  \<open>sendData\<close> in its two halves: the call up to the \<open>await\<close> of the write, which
  issues the write and says which effect it was (\<open>None\<close> when no characteristic is
  bound and nothing is written), and what follows once that write has settled.
\<close>

definition sendData_call :: "world \<Rightarrow> byte list \<Rightarrow> App \<Rightarrow> nat option \<times> App" where
  "sendData_call w data s =
     (case writeCharRef s of
        None \<Rightarrow>
          (None,
           addLog w ERROR_LOG (str ''Cannot send data. Write characteristic not available.'') None s)
      | Some c \<Rightarrow> (Some (length (effects s)), emit (Write data) s))"

definition sendData_settled :: "world \<Rightarrow> nat option \<Rightarrow> App \<Rightarrow> App" where
  "sendData_settled w k s =
     (case k of
        None \<Rightarrow> s
      | Some i \<Rightarrow>
          (case write_result w i of
             Fulfilled u \<Rightarrow> s
           | Rejected error \<Rightarrow>
               addLog w ERROR_LOG (str ''Failed to send data: '' @ err_message error) None s))"

text \<open>
  \<open>testNextOpCode\<close> is a callback made anew when \<open>opcodeToTest\<close> changes. A click
  runs the callback of the last render, and the \<open>opcodeToTest\<close> it tests, logs and
  sends is the counter \<open>c\<close> the state held at that render. The click runs up to the
  \<open>await\<close> of \<open>sendData\<close>; \<open>Returned\<close> says that the callback has ended,
  \<open>Awaiting k\<close> that the rest of it waits for the write \<open>k\<close>. The rest runs when
  the write has settled and adds one to the counter the state holds then.
\<close>

datatype pending = Returned | Awaiting "nat option"

definition testNextOpCode_click :: "world \<Rightarrow> int \<Rightarrow> App \<Rightarrow> pending \<times> App" where
  "testNextOpCode_click w c s =
     (if c > 0xFF then
        (Returned,
         (addLog w INFO (str ''OpCode testing finished.'') None s)
           \<lparr>opcodeToTest := 0x01, isOpCodeTestMode := False\<rparr>)
      else
        (let s1 = addLog w COMMAND
                    (str ''Testing OpCode 0x'' @ padStart2 (map ascii_upper (toString16 (Num c))))
                    None s
         in case sendData_call w [ToUint8 (Num c)] s1 of (k, s2) \<Rightarrow> (Awaiting k, s2)))"

definition testNextOpCode_settled :: "world \<Rightarrow> pending \<Rightarrow> App \<Rightarrow> App" where
  "testNextOpCode_settled w p s =
     (case p of
        Returned \<Rightarrow> s
      | Awaiting k \<Rightarrow>
          (let s1 = sendData_settled w k s
           in s1\<lparr>opcodeToTest := opcodeToTest s1 + 1\<rparr>))"

text \<open>
  A probe step that runs alone: the panel has rendered the state, so the callback holds
  the counter of the state, and the write settles before anything else happens.
\<close>

definition testNextOpCode :: "world \<Rightarrow> App \<Rightarrow> App" where
  "testNextOpCode w s =
     (case testNextOpCode_click w (opcodeToTest s) s of
        (p, s') \<Rightarrow> testNextOpCode_settled w p s')"

text \<open>The button of the panel that switches discovery mode on and off.\<close>

definition toggleOpCodeTestMode :: "App \<Rightarrow> App" where
  "toggleOpCodeTestMode s = s\<lparr>isOpCodeTestMode := \<not> isOpCodeTestMode s\<rparr>"

section \<open>The control panel: editing an opcode\<close>

text \<open>
  The \<open>onChange\<close> handler of \<open>OpCodeInput\<close>: the value it passes on, or \<open>None\<close>
  when it passes nothing.
\<close>

definition OpCodeInput_onChange :: "jsstring \<Rightarrow> int option" where
  "OpCodeInput_onChange val =
     (let hexVal = (if startsWith (str ''0x'') val then substring_from 2 val else val);
          intVal = parseInt16 hexVal
      in case intVal of
           NaN \<Rightarrow> None
         | Num v \<Rightarrow> if v \<ge> 0 \<and> v \<le> 255 then Some v else None)"

text \<open>The three callbacks the panel gives its inputs: \<open>setOpCodes(o => ({...o, K: v}))\<close>.\<close>

fun setOpCode :: "CommandType \<Rightarrow> int \<Rightarrow> OpCodes \<Rightarrow> OpCodes" where
  "setOpCode CLEAR_LEDS v opc = opc\<lparr>ClearLeds := v\<rparr>"
| "setOpCode BUZZ v opc = opc\<lparr>Buzz := v\<rparr>"
| "setOpCode CHANGE_LED v opc = opc\<lparr>ChangeLed := v\<rparr>"

fun getOpCode :: "CommandType \<Rightarrow> OpCodes \<Rightarrow> int" where
  "getOpCode CLEAR_LEDS opc = ClearLeds opc"
| "getOpCode BUZZ opc = Buzz opc"
| "getOpCode CHANGE_LED opc = ChangeLed opc"

text \<open>Typing \<open>val\<close> into the input of kind \<open>k\<close>.\<close>

definition editOpCode :: "CommandType \<Rightarrow> jsstring \<Rightarrow> App \<Rightarrow> App" where
  "editOpCode k val s =
     (case OpCodeInput_onChange val of
        None \<Rightarrow> s
      | Some v \<Rightarrow> s\<lparr>opCodes := setOpCode k v (opCodes s)\<rparr>)"

section \<open>The sniffer panel\<close>

text \<open>
  The state and the refs of \<open>SnifferPanel\<close>. Where the controller has a field of the
  same name, the sniffer's begins with \<open>sn_\<close>.
\<close>

datatype SnifferStatus = Disconnected | Scanning | Connecting | Listening | Error

record SnifferLog =
  sn_id :: real
  sn_uuid :: jsstring
  sn_data :: jsstring
  sn_timestamp :: jsstring

text \<open>
  A characteristic of the device, with the answers it gives when notifications are
  started and stopped.
\<close>

record characteristic =
  uuid :: jsstring
  notify :: bool
  indicate :: bool
  startNotifications_result :: "unit outcome"
  stopNotifications_result :: "unit outcome"

text \<open>
  The answers to one sniffing attempt. A service is the outcome of its
  \<open>getCharacteristics()\<close>.
\<close>

record sniffer_env =
  sn_bluetooth :: bool
  sn_requestDevice :: "device outcome"
  sn_gatt_connect :: "unit outcome"
  getPrimaryServices :: "characteristic list outcome list outcome"

text \<open>What the panel does that can be observed: a status it sets, or a call it makes.\<close>

datatype sniffer_event = Status SnifferStatus | Call effect

record Sniffer =
  status :: SnifferStatus
  sn_logs :: "SnifferLog list"
  sn_deviceRef :: "device option"
  subscribedCharsRef :: "characteristic list"
  sn_gatt_connected :: bool
  sn_timeouts :: "(nat \<times> SnifferStatus) list"
  events :: "sniffer_event list"

definition Sniffer_init :: Sniffer where
  "Sniffer_init = \<lparr>status = Disconnected, sn_logs = [], sn_deviceRef = None,
     subscribedCharsRef = [], sn_gatt_connected = False, sn_timeouts = [], events = []\<rparr>"

definition PROBLEMATIC_UUIDS :: "jsstring list" where
  "PROBLEMATIC_UUIDS = [str ''00002a05-0000-1000-8000-00805f9b34fb'']"

definition setStatus :: "SnifferStatus \<Rightarrow> Sniffer \<Rightarrow> Sniffer" where
  "setStatus st s = s\<lparr>status := st, events := events s @ [Status st]\<rparr>"

definition call :: "effect \<Rightarrow> Sniffer \<Rightarrow> Sniffer" where
  "call e s = s\<lparr>events := events s @ [Call e]\<rparr>"

text \<open>\<open>prev.slice(-200)\<close>: the last 200 elements, or all when there are fewer.\<close>

definition slice_last :: "nat \<Rightarrow> 'a list \<Rightarrow> 'a list" where
  "slice_last n xs = drop (length xs - n) xs"

definition Sniffer_addLog :: "stamp \<Rightarrow> jsstring \<Rightarrow> jsstring \<Rightarrow> Sniffer \<Rightarrow> Sniffer" where
  "Sniffer_addLog t u d s =
     s\<lparr>sn_logs := slice_last 200 (sn_logs s) @
          [\<lparr>sn_id = of_int (date_now t) + math_random t, sn_uuid = u, sn_data = d,
            sn_timestamp = time_string t\<rparr>]\<rparr>"

definition notificationHandler :: "stamp \<Rightarrow> jsstring \<Rightarrow> byte list option \<Rightarrow> Sniffer \<Rightarrow> Sniffer" where
  "notificationHandler t u val s =
     (case val of
        None \<Rightarrow> s
      | Some data \<Rightarrow>
          Sniffer_addLog t u
            (join (str '' '') (map (\<lambda>b. padStart2 (toString16 (Num (uint b)))) data)) s)"

text \<open>\<open>deviceRef.current?.gatt?.connected\<close>\<close>

definition device_connected :: "Sniffer \<Rightarrow> bool" where
  "device_connected s =
     (case sn_deviceRef s of None \<Rightarrow> False | Some d \<Rightarrow> has_gatt d \<and> sn_gatt_connected s)"

text \<open>The loop of \<open>stopSniffing\<close> over the subscribed characteristics.\<close>

fun stop_all :: "characteristic list \<Rightarrow> Sniffer \<Rightarrow> Sniffer" where
  "stop_all [] s = s"
| "stop_all (c # cs) s =
     stop_all cs
       (if device_connected s then
          (case stopNotifications_result c of
             Fulfilled u \<Rightarrow> call (RemoveValueListener (uuid c)) (call (StopNotifications (uuid c)) s)
           | Rejected e \<Rightarrow> call ConsoleWarn (call (StopNotifications (uuid c)) s))
        else s)"

definition stopSniffing :: "Sniffer \<Rightarrow> Sniffer" where
  "stopSniffing s =
     (let s1 = (case sn_deviceRef s of None \<Rightarrow> s | Some d \<Rightarrow> call RemoveDisconnectListener s);
          s2 = stop_all (subscribedCharsRef s1) s1;
          s3 = s2\<lparr>subscribedCharsRef := []\<rparr>;
          s4 = (if device_connected s3
                then call GattDisconnect (s3\<lparr>sn_gatt_connected := False\<rparr>) else s3);
          s5 = s4\<lparr>sn_deviceRef := None\<rparr>
      in call ConsoleLog (setStatus Disconnected s5))"

text \<open>
  The inner loop of \<open>startSniffing\<close> over the characteristics of one service, with the
  count of subscriptions; a subscription that fails is logged and the loop goes on.
\<close>

definition eligible :: "characteristic \<Rightarrow> bool" where
  "eligible c \<longleftrightarrow> (notify c \<or> indicate c) \<and> uuid c \<notin> set PROBLEMATIC_UUIDS"

fun subscribe_chars :: "characteristic list \<Rightarrow> Sniffer \<times> nat \<Rightarrow> Sniffer \<times> nat" where
  "subscribe_chars [] (s, n) = (s, n)"
| "subscribe_chars (c # cs) (s, n) =
     subscribe_chars cs
       (if eligible c then
          (case startNotifications_result c of
             Fulfilled u \<Rightarrow>
               ((call (AddValueListener (uuid c)) (call (StartNotifications (uuid c)) s))
                  \<lparr>subscribedCharsRef := subscribedCharsRef s @ [c]\<rparr>, n + 1)
           | Rejected e \<Rightarrow> (call ConsoleError (call (StartNotifications (uuid c)) s), n))
        else (s, n))"

text \<open>The outer loop over the services; \<open>getCharacteristics()\<close> may throw.\<close>

fun subscribe_services ::
  "characteristic list outcome list \<Rightarrow> Sniffer \<times> nat \<Rightarrow> (js_error \<times> Sniffer) + (Sniffer \<times> nat)" where
  "subscribe_services [] (s, n) = Inr (s, n)"
| "subscribe_services (svc # rest) (s, n) =
     (case svc of
        Rejected e \<Rightarrow> Inl (e, call GetCharacteristics s)
      | Fulfilled chars \<Rightarrow>
          subscribe_services rest (subscribe_chars chars (call GetCharacteristics s, n)))"

definition startSniffing_try :: "sniffer_env \<Rightarrow> Sniffer \<Rightarrow> (js_error \<times> Sniffer) + Sniffer" where
  "startSniffing_try env s =
     (let s1 = call RequestDevice (setStatus Scanning s)
      in case sn_requestDevice env of
           Rejected e \<Rightarrow> Inl (e, s1)
         | Fulfilled dev \<Rightarrow>
             (let s2 = setStatus Connecting
                         (call AddDisconnectListener (s1\<lparr>sn_deviceRef := Some dev\<rparr>))
              in if \<not> has_gatt dev then
                   Inl (\<lparr>err_name = str ''TypeError'', err_message = []\<rparr>, s2)
                 else
                   (let s3 = call GattConnect s2
                    in case sn_gatt_connect env of
                         Rejected e \<Rightarrow> Inl (e, s3)
                       | Fulfilled u \<Rightarrow>
                           (let s4 = call GetPrimaryServices (s3\<lparr>sn_gatt_connected := True\<rparr>)
                            in case getPrimaryServices env of
                                 Rejected e \<Rightarrow> Inl (e, s4)
                               | Fulfilled services \<Rightarrow>
                                   (case subscribe_services services (s4, 0) of
                                      Inl thrown \<Rightarrow> Inl thrown
                                    | Inr (s5, notifyCharsCount) \<Rightarrow>
                                        if notifyCharsCount > 0 then Inr (setStatus Listening s5)
                                        else Inr (stopSniffing (call Alert (setStatus Error s5))))))))"

definition startSniffing :: "sniffer_env \<Rightarrow> Sniffer \<Rightarrow> Sniffer" where
  "startSniffing env s =
     (if \<not> sn_bluetooth env then setStatus Error (call Alert s)
      else
        (case startSniffing_try env s of
           Inr s' \<Rightarrow> s'
         | Inl (error, s') \<Rightarrow>
             (let s1 = call ConsoleError s'
              in if err_name error \<noteq> str ''NotFoundError'' then
                   call (SetTimeout 3000)
                     ((setStatus Error s1)\<lparr>sn_timeouts := sn_timeouts s1 @ [(3000, Disconnected)]\<rparr>)
                 else setStatus Disconnected s1)))"

section \<open>Notions the properties are stated with\<close>

text \<open>The opcode table holds bytes; \<open>kind\<close> is the \<open>type\<close> field of a command.\<close>

definition valid_opCodes :: "OpCodes \<Rightarrow> bool" where
  "valid_opCodes t \<longleftrightarrow>
     0 \<le> ClearLeds t \<and> ClearLeds t \<le> 255 \<and> 0 \<le> Buzz t \<and> Buzz t \<le> 255
     \<and> 0 \<le> ChangeLed t \<and> ChangeLed t \<le> 255"

fun kind :: "MacroCommand \<Rightarrow> CommandType" where
  "kind (ClearLedsCommand i) = CLEAR_LEDS"
| "kind (BuzzCommand i d) = BUZZ"
| "kind (ChangeLedCommand i g c d) = CHANGE_LED"

text \<open>
  A characteristic the sniffer subscribes to, one whose subscription fails, and what the
  subscription loop does for one characteristic.
\<close>

definition subscribes :: "characteristic \<Rightarrow> bool" where
  "subscribes c \<longleftrightarrow> eligible c \<and> startNotifications_result c = Fulfilled ()"

definition refuses :: "characteristic \<Rightarrow> bool" where
  "refuses c \<longleftrightarrow>
     eligible c \<and> (case startNotifications_result c of Fulfilled u \<Rightarrow> False | Rejected e \<Rightarrow> True)"

definition subscribe_events :: "characteristic \<Rightarrow> sniffer_event list" where
  "subscribe_events c =
     (if subscribes c then [Call (StartNotifications (uuid c)), Call (AddValueListener (uuid c))]
      else if refuses c then [Call (StartNotifications (uuid c)), Call ConsoleError]
      else [])"

text \<open>
  The controller is connected: the status says so, the keep-alive interval \<open>h\<close> is the
  one timer set, and the device \<open>d\<close> and the write characteristic are bound.
\<close>

definition Connected_state :: "App \<Rightarrow> nat \<Rightarrow> device \<Rightarrow> bool" where
  "Connected_state s h d \<longleftrightarrow>
     connectionStatus s = CONNECTED \<and> keepAliveIntervalRef s = Some h \<and> intervals s = [h]
     \<and> deviceRef s = Some d \<and> has_gatt d \<and> writeCharRef s \<noteq> None"

section \<open>Sample worlds and wands\<close>

text \<open>
  A world whose writes all succeed, a wand that answers every step of \<open>connect\<close>,
  and the state the controller reaches by connecting to it from its initial state.
\<close>

definition quiet_world :: world where
  "quiet_world = \<lparr>clock = (\<lambda>k. \<lparr>date_now = 0, math_random = 0, time_string = []\<rparr>),
     write_result = (\<lambda>k. Fulfilled ())\<rparr>"

definition wand_env :: connect_env where
  "wand_env = \<lparr>bluetooth = True,
     requestDevice = Fulfilled \<lparr>dev_name = str ''MCW'', has_gatt = True\<rparr>,
     gatt_connect = Fulfilled (), getPrimaryService = Fulfilled (),
     getWriteCharacteristic = Fulfilled (), getNotifyCharacteristic = Fulfilled (),
     startNotifications = Fulfilled ()\<rparr>"

definition App_connected :: App where
  "App_connected = connect quiet_world wand_env App_init"

text \<open>
  A notifying characteristic whose subscription is accepted or refused, and the answers of
  a wand with the given services.
\<close>

definition notifying :: "string \<Rightarrow> bool \<Rightarrow> characteristic" where
  "notifying u accepted =
     \<lparr>uuid = str u, notify = True, indicate = False,
      startNotifications_result =
        (if accepted then Fulfilled ()
         else Rejected \<lparr>err_name = str ''NotSupportedError'', err_message = []\<rparr>),
      stopNotifications_result = Fulfilled ()\<rparr>"

definition wand_with :: "characteristic list list \<Rightarrow> sniffer_env" where
  "wand_with css =
     \<lparr>sn_bluetooth = True,
      sn_requestDevice = Fulfilled \<lparr>dev_name = str ''MCW'', has_gatt = True\<rparr>,
      sn_gatt_connect = Fulfilled (), getPrimaryServices = Fulfilled (map Fulfilled css)\<rparr>"

text \<open>
  Two clicks on the probe button before the first write has settled, each running the
  callback of the render before it; the two writes settle afterwards, in order.
\<close>

definition overlapping_probes :: "world \<Rightarrow> App \<Rightarrow> App" where
  "overlapping_probes w s =
     (case testNextOpCode_click w (opcodeToTest s) s of
        (p1, s1) \<Rightarrow>
          (case testNextOpCode_click w (opcodeToTest s1) s1 of
             (p2, s2) \<Rightarrow> testNextOpCode_settled w p2 (testNextOpCode_settled w p1 s2)))"

text \<open>
  A connect attempt that fails at the GATT server, followed at once by one that succeeds:
  the controller is connected while the timer of the failed attempt is still pending.
\<close>

definition NetworkError :: js_error where
  "NetworkError = \<lparr>err_name = str ''NetworkError'',
     err_message = str ''Connection attempt failed.''\<rparr>"

definition App_reconnected :: App where
  "App_reconnected =
     connect quiet_world wand_env
       (connect quiet_world (wand_env\<lparr>gatt_connect := Rejected NetworkError\<rparr>) App_init)"

text \<open>The sniffer listening to a wand with one notifying characteristic.\<close>

definition Sniffer_listening :: Sniffer where
  "Sniffer_listening = startSniffing (wand_with [[notifying ''b'' True]]) Sniffer_init"

text \<open>The answer of the device chooser when the user cancels it or no wand is in range.\<close>

definition NotFoundError :: js_error where
  "NotFoundError = \<lparr>err_name = str ''NotFoundError'',
     err_message = str ''User cancelled the requestDevice() chooser.''\<rparr>"

section \<open>Properties of the encoder\<close>

lemma foldl_push: "foldl (\<lambda>acc x. acc @ f x) a xs = a @ concat (map f xs)"
  by (induction xs arbitrary: a) simp_all

lemma length_command_bytes: "length (command_bytes t c) = contribution c"
  by (cases c) (simp_all add: Let_def)

lemma and_255: "(x::int) AND 0xFF = x mod 256"
proof -
  have "x AND 0xFF = x AND mask 8" by (simp add: mask_eq_exp_minus_1)
  also have "\<dots> = take_bit 8 x" by (simp add: take_bit_eq_mask)
  also have "\<dots> = x mod 256" by (simp add: take_bit_eq_mod)
  finally show ?thesis .
qed

lemma le16: "(v::int) mod 256 + 256 * (v div 256 mod 256) = v mod 65536"
proof -
  have "v mod (256 * 256) = 256 * (v div 256 mod 256) + v mod 256"
    by (rule zmod_zmult2_eq) simp
  then show ?thesis by simp
qed

lemma little_endian_16:
  fixes v :: int
  shows "0 \<le> v AND 0xFF \<and> v AND 0xFF < 256
       \<and> 0 \<le> drop_bit 8 v AND 0xFF \<and> drop_bit 8 v AND 0xFF < 256
       \<and> (v AND 0xFF) + 256 * (drop_bit 8 v AND 0xFF) = v mod 65536"
  using le16 [of v] by (simp add: and_255 drop_bit_eq_div)

lemma hex_not_ws: "isHexDigit c \<Longrightarrow> \<not> isWhiteSpace c"
  by (auto simp: isHexDigit_def hexval_def isWhiteSpace_def word_le_nat_alt split: if_splits)

lemma parseInt16_pair:
  "isHexDigit c1 \<Longrightarrow> isHexDigit c2 \<Longrightarrow> parseInt16 [c1, c2] = Num (channel c1 c2)"
  apply (frule hex_not_ws)
  apply (auto simp: parseInt16_def Let_def str_def channel_def digits_value_def isHexDigit_def  split: option.splits)
  apply (auto simp: hexval_def split: if_splits)
  done

lemma fullCommandBytes_concat: "fullCommandBytes t m = concat (map (command_bytes t) m)"
  by (simp add: fullCommandBytes_def foldl_push)

lemma length_fullCommandBytes: "length (fullCommandBytes t m) = sum_list (map contribution m)"
  by (simp add: fullCommandBytes_concat length_concat length_command_bytes comp_def)

text \<open>
  Claim C1. For every macro and every opcode table the encoder emits, in macro order, one
  group per command: the groups are concatenated in the order of the macro, so the length
  is the sum of the contributions 1, 3 and 7. \<open>ClearLeds\<close> is its opcode alone;
  \<open>Buzz\<close> is the opcode and the two bytes of the duration clamped to at most 32767,
  low byte first; \<open>ChangeLed\<close> with a colour of six hexadecimal digits is the opcode,
  the group, the three channels and the two duration bytes. The witness is the macro of
  the specification under the default table: AA BB 2C 01 CC 00 FF 00 FF F4 01.
\<close>

theorem C1_encode:
  "fullCommandBytes t m = concat (map (command_bytes t) m)
   \<and> length (fullCommandBytes t m) = sum_list (map contribution m)
   \<and> command_bytes t (ClearLedsCommand k) = [Num (ClearLeds t)]
   \<and> (\<exists>lo hi. command_bytes t (BuzzCommand k d) = [Num (Buzz t), Num lo, Num hi]
        \<and> 0 \<le> lo \<and> lo < 256 \<and> 0 \<le> hi \<and> hi < 256
        \<and> lo + 256 * hi = min d 32767 mod 65536)
   \<and> (list_all isHexDigit [c1, c2, c3, c4, c5, c6] \<longrightarrow>
        (\<exists>lo hi. command_bytes t (ChangeLedCommand k g [c1, c2, c3, c4, c5, c6] d)
             = [Num (ChangeLed t), Num g, Num (channel c1 c2), Num (channel c3 c4),
                Num (channel c5 c6), Num lo, Num hi]
           \<and> 0 \<le> lo \<and> lo < 256 \<and> 0 \<le> hi \<and> hi < 256
           \<and> lo + 256 * hi = min d 32767 mod 65536))"
proof (intro conjI impI)
  show "fullCommandBytes t m = concat (map (command_bytes t) m)"
    by (rule fullCommandBytes_concat)
  show "length (fullCommandBytes t m) = sum_list (map contribution m)"
    by (rule length_fullCommandBytes)
  show "command_bytes t (ClearLedsCommand k) = [Num (ClearLeds t)]"
    by simp
  show "\<exists>lo hi. command_bytes t (BuzzCommand k d) = [Num (Buzz t), Num lo, Num hi]
        \<and> 0 \<le> lo \<and> lo < 256 \<and> 0 \<le> hi \<and> hi < 256
        \<and> lo + 256 * hi = min d 32767 mod 65536"
    using little_endian_16 [of "min d 32767"] by (simp add: Let_def)
next
  assume hex: "list_all isHexDigit [c1, c2, c3, c4, c5, c6]"
  then have r: "parseInt16 (substring 0 2 [c1, c2, c3, c4, c5, c6]) = Num (channel c1 c2)"
    and g: "parseInt16 (substring 2 4 [c1, c2, c3, c4, c5, c6]) = Num (channel c3 c4)"
    and b: "parseInt16 (substring 4 6 [c1, c2, c3, c4, c5, c6]) = Num (channel c5 c6)"
    by (simp_all add: substring_def parseInt16_pair)
  show "\<exists>lo hi. command_bytes t (ChangeLedCommand k g [c1, c2, c3, c4, c5, c6] d)
             = [Num (ChangeLed t), Num g, Num (channel c1 c2), Num (channel c3 c4),
                Num (channel c5 c6), Num lo, Num hi]
           \<and> 0 \<le> lo \<and> lo < 256 \<and> 0 \<le> hi \<and> hi < 256
           \<and> lo + 256 * hi = min d 32767 mod 65536"
    using little_endian_16 [of "min d 32767"] r g b by (simp add: Let_def)
qed


theorem C1_encode_witness:
  "list_all isHexDigit (str ''FF00FF'')
   \<and> fullCommandBytes default_opCodes
       [ClearLedsCommand [], BuzzCommand [] 300, ChangeLedCommand [] 0 (str ''FF00FF'') 500]
     = [Num 0xAA, Num 0xBB, Num 0x2C, Num 0x01, Num 0xCC, Num 0x00, Num 0xFF, Num 0x00,
        Num 0xFF, Num 0xF4, Num 0x01]
   \<and> map ToUint8 (fullCommandBytes default_opCodes
       [ClearLedsCommand [], BuzzCommand [] 300, ChangeLedCommand [] 0 (str ''FF00FF'') 500])
     = [0xAA, 0xBB, 0x2C, 0x01, 0xCC, 0x00, 0xFF, 0x00, 0xFF, 0xF4, 0x01]"
proof -
  have hex: "list_all isHexDigit (str ''FF00FF'')"
    by (simp add: str_def isHexDigit_def hexval_def)
  have ch: "channel 0x46 0x46 = 255" "channel 0x30 0x30 = 0"
    by (simp_all add: channel_def hexval_def)
  have lo: "(300::int) AND 0xFF = 0x2C" "drop_bit 8 (300::int) AND 0xFF = 1"
    "(500::int) AND 0xFF = 0xF4" "drop_bit 8 (500::int) AND 0xFF = 1"
    by (simp_all add: and_255 drop_bit_eq_div)
  from C1_encode [where t = default_opCodes and k = "[]" and d = 500 and g = 0
      and m = "[ClearLedsCommand [], BuzzCommand [] 300, ChangeLedCommand [] 0 (str ''FF00FF'') 500]"
      and ?c1.0 = "0x46" and ?c2.0 = "0x46" and ?c3.0 = "0x30" and ?c4.0 = "0x30"
      and ?c5.0 = "0x46" and ?c6.0 = "0x46"]
  have bytes: "fullCommandBytes default_opCodes
       [ClearLedsCommand [], BuzzCommand [] 300, ChangeLedCommand [] 0 (str ''FF00FF'') 500]
     = [Num 0xAA, Num 0xBB, Num 0x2C, Num 0x01, Num 0xCC, Num 0x00, Num 0xFF, Num 0x00,
        Num 0xFF, Num 0xF4, Num 0x01]"
    using hex ch lo by (simp add: str_def default_opCodes_def Let_def)
  show ?thesis using hex bytes by simp
qed

section \<open>Properties of the chunked send\<close>

lemma concat_chunks_from: "concat (chunks_from i bs) = map ToUint8 (drop i bs)"
proof (induction i bs rule: chunks_from.induct)
  case (1 i bs)
  show ?case
  proof (cases "i < length bs")
    case True
    have "map ToUint8 (take 20 (drop i bs)) @ map ToUint8 (drop (i + 20) bs) = map ToUint8 (drop i bs)"
      by (metis add.commute append_take_drop_id drop_drop map_append)
    with True 1 show ?thesis
      by (simp add: chunks_from.simps [of i bs] slice_def MTU_PAYLOAD_SIZE_def)
  next
    case False
    then show ?thesis by (simp add: chunks_from.simps [of i bs])
  qed
qed

lemma chunk_sizes: "c \<in> set (chunks_from i bs) \<Longrightarrow> 0 < length c \<and> length c \<le> MTU_PAYLOAD_SIZE"
proof (induction i bs rule: chunks_from.induct)
  case (1 i bs)
  show ?case
  proof (cases "i < length bs")
    case True
    with 1 show ?thesis
      by (auto simp: chunks_from.simps [of i bs] slice_def MTU_PAYLOAD_SIZE_def)
  next
    case False
    with 1 show ?thesis by (simp add: chunks_from.simps [of i bs])
  qed
qed

lemma sendData_bound:
  "writeCharRef s \<noteq> None \<Longrightarrow>
     effects (sendData w d s) = effects s @ [Write d] \<and> writeCharRef (sendData w d s) = writeCharRef s"
  by (auto simp: sendData_def writeValueWithoutResponse_def emit_def addLog_def Let_def
      split: option.splits outcome.splits)

lemma send_chunks_effects:
  "writeCharRef s \<noteq> None \<Longrightarrow>
     effects (send_chunks w i bs s)
       = effects s @ concat (map (\<lambda>c. [Write c, Delay 20]) (chunks_from i bs))"
proof (induction w i bs s rule: send_chunks.induct)
  case (1 w i bs s)
  show ?case
  proof (cases "i < length bs")
    case True
    let ?c = "map ToUint8 (slice i (i + MTU_PAYLOAD_SIZE) bs)"
    let ?s = "emit (Delay 20) (sendData w ?c s)"
    have b: "writeCharRef ?s \<noteq> None" "effects ?s = effects s @ [Write ?c, Delay 20]"
      using sendData_bound [OF "1.prems", of w ?c] "1.prems" by (simp_all add: emit_def)
    from "1.IH" [OF True b(1)] b(2) True show ?thesis
      by (simp add: send_chunks.simps [of w i bs s] chunks_from.simps [of i bs])
  next
    case False
    then show ?thesis
      by (simp add: send_chunks.simps [of w i bs s] chunks_from.simps [of i bs])
  qed
qed

lemma chunks_45: "length bs = 45 \<Longrightarrow> map length (chunks_from 0 bs) = [20, 20, 5]"
  by (simp add: chunks_from.simps [of 0 bs] chunks_from.simps [of 20 bs]
      chunks_from.simps [of 40 bs] chunks_from.simps [of 60 bs] slice_def MTU_PAYLOAD_SIZE_def)

text \<open>
  Claim C3. The chunks the send loop builds from an encoded byte sequence concatenate, in
  send order, to that sequence; each holds between 1 and 20 bytes; a sequence of 45 bytes
  gives chunks of 20, 20 and 5 bytes. With the write characteristic bound, what
  \<open>sendMacro\<close> does on the link is exactly: write the first chunk, wait 20 ms, write
  the second, wait 20 ms, and so on, each write issued after the one before it.
\<close>

theorem C3_chunked_send:
  "concat (chunks_from 0 bs) = map ToUint8 bs
   \<and> (\<forall>c \<in> set (chunks_from 0 bs). 0 < length c \<and> length c \<le> 20)
   \<and> (length bs = 45 \<longrightarrow> map length (chunks_from 0 bs) = [20, 20, 5])
   \<and> (macroCommands s \<noteq> [] \<and> writeCharRef s \<noteq> None \<and> bs = fullCommandBytes (opCodes s) (macroCommands s)
        \<longrightarrow> effects (sendMacro w s)
            = effects s @ concat (map (\<lambda>c. [Write c, Delay 20]) (chunks_from 0 bs)))"
proof -
  have a: "concat (chunks_from 0 bs) = map ToUint8 bs"
    by (simp add: concat_chunks_from)
  have b: "\<forall>c \<in> set (chunks_from 0 bs). 0 < length c \<and> length c \<le> 20"
    using chunk_sizes [of _ 0 bs] by (simp add: MTU_PAYLOAD_SIZE_def)
  have c: "length bs = 45 \<longrightarrow> map length (chunks_from 0 bs) = [20, 20, 5]"
    by (simp add: chunks_45)
  have d: "effects (sendMacro w s)
      = effects s @ concat (map (\<lambda>c. [Write c, Delay 20]) (chunks_from 0 bs))"
    if h: "macroCommands s \<noteq> [] \<and> writeCharRef s \<noteq> None
     \<and> bs = fullCommandBytes (opCodes s) (macroCommands s)"
  proof -
    let ?s1 = "addLog w COMMAND (str ''Sending VFX Macro...'')
               (Some (str ''Bytes: '' @ join (str '' '') (map (\<lambda>b. padStart2 (toString16 b)) bs))) s"
    have "writeCharRef ?s1 \<noteq> None" "effects ?s1 = effects s"
      using h by (simp_all add: addLog_def Let_def)
    then have "effects (send_chunks w 0 bs ?s1)
        = effects s @ concat (map (\<lambda>c. [Write c, Delay 20]) (chunks_from 0 bs))"
      using send_chunks_effects [of ?s1 w 0 bs] by simp
    then show ?thesis
      using h by (simp add: sendMacro_def Let_def)
  qed
  from a b c d show ?thesis by blast
qed


theorem C3_chunked_send_witness:
  "macroCommands (App_connected\<lparr>macroCommands := replicate 15 (BuzzCommand [] 300)\<rparr>) \<noteq> []
   \<and> writeCharRef (App_connected\<lparr>macroCommands := replicate 15 (BuzzCommand [] 300)\<rparr>) \<noteq> None
   \<and> length (fullCommandBytes default_opCodes (replicate 15 (BuzzCommand [] 300))) = 45
   \<and> map length (chunks_from 0 (fullCommandBytes default_opCodes (replicate 15 (BuzzCommand [] 300))))
       = [20, 20, 5]
   \<and> (\<exists>c1 c2 c3. length c1 = 20 \<and> length c2 = 20 \<and> length c3 = 5
        \<and> c1 @ c2 @ c3 = map ToUint8 (fullCommandBytes default_opCodes (replicate 15 (BuzzCommand [] 300)))
        \<and> effects (sendMacro quiet_world (App_connected\<lparr>macroCommands := replicate 15 (BuzzCommand [] 300)\<rparr>))
            = effects App_connected @ [Write c1, Delay 20, Write c2, Delay 20, Write c3, Delay 20])"
proof -
  let ?m = "replicate 15 (BuzzCommand [] 300)"
  let ?s = "App_connected\<lparr>macroCommands := ?m\<rparr>"
  let ?bs = "fullCommandBytes default_opCodes ?m"
  have op: "opCodes App_connected = default_opCodes"
    by code_simp
  have wr: "writeCharRef App_connected \<noteq> None"
    by code_simp
  have ne: "?m \<noteq> []" by code_simp
  have len: "length ?bs = 45" by code_simp
  note th = C3_chunked_send [of ?bs ?s quiet_world]
  from th len have sizes: "map length (chunks_from 0 ?bs) = [20, 20, 5]" by blast
  then obtain c1 c2 c3 where cs: "chunks_from 0 ?bs = [c1, c2, c3]"
    and l: "length c1 = 20" "length c2 = 20" "length c3 = 5"
    by (auto simp: map_eq_Cons_conv)
  from th have "concat (chunks_from 0 ?bs) = map ToUint8 ?bs" by blast
  with cs have cat: "c1 @ c2 @ c3 = map ToUint8 ?bs" by simp
  from th have "macroCommands ?s \<noteq> [] \<and> writeCharRef ?s \<noteq> None
      \<and> ?bs = fullCommandBytes (opCodes ?s) (macroCommands ?s)
    \<longrightarrow> effects (sendMacro quiet_world ?s)
        = effects ?s @ concat (map (\<lambda>c. [Write c, Delay 20]) (chunks_from 0 ?bs))"
    by blast
  moreover have "macroCommands ?s \<noteq> [] \<and> writeCharRef ?s \<noteq> None
      \<and> ?bs = fullCommandBytes (opCodes ?s) (macroCommands ?s)"
    using ne wr op by simp
  ultimately have "effects (sendMacro quiet_world ?s)
        = effects ?s @ concat (map (\<lambda>c. [Write c, Delay 20]) (chunks_from 0 ?bs))"
    by (rule mp)
  with cs have eff: "effects (sendMacro quiet_world ?s)
      = effects App_connected @ [Write c1, Delay 20, Write c2, Delay 20, Write c3, Delay 20]"
    by simp
  have a: "macroCommands ?s \<noteq> []" using ne by simp
  have b: "writeCharRef ?s \<noteq> None" using wr by simp
  from l cat eff have "\<exists>c1 c2 c3. length c1 = 20 \<and> length c2 = 20 \<and> length c3 = 5
        \<and> c1 @ c2 @ c3 = map ToUint8 ?bs
        \<and> effects (sendMacro quiet_world ?s)
            = effects App_connected @ [Write c1, Delay 20, Write c2, Delay 20, Write c3, Delay 20]"
    by blast
  with a b len sizes show ?thesis by blast
qed


section \<open>Properties of opcode discovery\<close>

lemma addLog_frame:
  "effects (addLog w ty m d s) = effects s"
  "writeCharRef (addLog w ty m d s) = writeCharRef s"
  "opcodeToTest (addLog w ty m d s) = opcodeToTest s"
  "isOpCodeTestMode (addLog w ty m d s) = isOpCodeTestMode s"
  by (simp_all add: addLog_def Let_def)

lemma sendData_frame:
  "opcodeToTest (sendData w d s) = opcodeToTest s"
  "isOpCodeTestMode (sendData w d s) = isOpCodeTestMode s"
  by (simp_all add: sendData_def writeValueWithoutResponse_def emit_def addLog_def Let_def
      split: option.splits outcome.splits)

lemma sendData_split:
  "sendData w d s = (case sendData_call w d s of (k, s') \<Rightarrow> sendData_settled w k s')"
  by (simp add: sendData_def sendData_call_def sendData_settled_def writeValueWithoutResponse_def
      split: option.splits outcome.splits)

lemma testNextOpCode_alone:
  "testNextOpCode w s =
     (if opcodeToTest s > 0xFF then
        (addLog w INFO (str ''OpCode testing finished.'') None s)
          \<lparr>opcodeToTest := 0x01, isOpCodeTestMode := False\<rparr>
      else
        (let s1 = addLog w COMMAND
                    (str ''Testing OpCode 0x''
                       @ padStart2 (map ascii_upper (toString16 (Num (opcodeToTest s)))))
                    None s;
             s2 = sendData w [ToUint8 (Num (opcodeToTest s))] s1
         in s2\<lparr>opcodeToTest := opcodeToTest s2 + 1\<rparr>))"
  by (simp add: testNextOpCode_def testNextOpCode_click_def testNextOpCode_settled_def
      sendData_split Let_def split: prod.splits)

lemma testNextOpCode_step:
  assumes "opcodeToTest s \<le> 0xFF" "writeCharRef s \<noteq> None"
  shows "effects (testNextOpCode w s) = effects s @ [Write [word_of_int (opcodeToTest s)]]"
    and "opcodeToTest (testNextOpCode w s) = opcodeToTest s + 1"
    and "isOpCodeTestMode (testNextOpCode w s) = isOpCodeTestMode s"
    and "writeCharRef (testNextOpCode w s) = writeCharRef s"
  using assms sendData_bound [of "addLog w COMMAND
       (str ''Testing OpCode 0x'' @ padStart2 (map ascii_upper (toString16 (Num (opcodeToTest s)))))
       None s" w "[word_of_int (opcodeToTest s)]"]
  by (simp_all add: testNextOpCode_alone Let_def addLog_frame sendData_frame)

lemma testNextOpCode_finish:
  assumes "opcodeToTest s > 0xFF"
  shows "effects (testNextOpCode w s) = effects s"
    and "opcodeToTest (testNextOpCode w s) = 0x01"
    and "\<not> isOpCodeTestMode (testNextOpCode w s)"
  using assms by (simp_all add: testNextOpCode_alone addLog_frame)

lemma probe_invariant:
  assumes "opcodeToTest s = 0x01" "writeCharRef s \<noteq> None"
  shows "n \<le> 255 \<Longrightarrow>
     opcodeToTest ((testNextOpCode w ^^ n) s) = int n + 1
     \<and> writeCharRef ((testNextOpCode w ^^ n) s) \<noteq> None
     \<and> isOpCodeTestMode ((testNextOpCode w ^^ n) s) = isOpCodeTestMode s"
proof (induction n)
  case 0
  with assms show ?case by simp
next
  case (Suc n)
  then have ih: "opcodeToTest ((testNextOpCode w ^^ n) s) = int n + 1"
      "writeCharRef ((testNextOpCode w ^^ n) s) \<noteq> None"
      "isOpCodeTestMode ((testNextOpCode w ^^ n) s) = isOpCodeTestMode s"
    by simp_all
  from Suc.prems ih(1) have le: "opcodeToTest ((testNextOpCode w ^^ n) s) \<le> 0xFF" by simp
  show ?case
    using testNextOpCode_step [OF le ih(2), of w] ih by simp
qed

text \<open>
  Claim C4, as amended. Discovery mode is active with the probe counter at 0x01 and the
  write characteristic bound, and every probe step runs alone: its write has settled and
  the panel has rendered before the next click. Then for every N from 1 to 255 the N-th
  step sends exactly one write of the single byte N and leaves the counter at N + 1 with
  the mode still active, also after the 255th step, when the counter is 0x100; the 256th
  call sends nothing, switches the mode off and resets the counter to 0x01.
\<close>

theorem C4_opcode_discovery:
  assumes "isOpCodeTestMode s" and "opcodeToTest s = 0x01" and "writeCharRef s \<noteq> None"
  shows "(\<forall>N. 1 \<le> N \<and> N \<le> 255 \<longrightarrow>
            (\<exists>b. unat b = N
               \<and> effects ((testNextOpCode w ^^ N) s)
                   = effects ((testNextOpCode w ^^ (N - 1)) s) @ [Write [b]])
            \<and> opcodeToTest ((testNextOpCode w ^^ N) s) = int N + 1
            \<and> isOpCodeTestMode ((testNextOpCode w ^^ N) s))
       \<and> effects ((testNextOpCode w ^^ 256) s) = effects ((testNextOpCode w ^^ 255) s)
       \<and> \<not> isOpCodeTestMode ((testNextOpCode w ^^ 256) s)
       \<and> opcodeToTest ((testNextOpCode w ^^ 256) s) = 0x01"
proof -
  have step: "(\<exists>b. unat b = N
               \<and> effects ((testNextOpCode w ^^ N) s)
                   = effects ((testNextOpCode w ^^ (N - 1)) s) @ [Write [b]])
            \<and> opcodeToTest ((testNextOpCode w ^^ N) s) = int N + 1
            \<and> isOpCodeTestMode ((testNextOpCode w ^^ N) s)"
    if N: "1 \<le> N \<and> N \<le> 255" for N
  proof -
    from N obtain n where n: "N = Suc n" "n \<le> 255" by (cases N) auto
    let ?p = "(testNextOpCode w ^^ n) s"
    from probe_invariant [OF assms(2,3) n(2), of w]
    have inv: "opcodeToTest ?p = int n + 1" "writeCharRef ?p \<noteq> None" by simp_all
    from N n inv(1) have le: "opcodeToTest ?p \<le> 0xFF" by simp
    have b: "unat (word_of_int (int n + 1) :: byte) = N"
    proof -
      have "(word_of_int (int n + 1) :: byte) = of_nat N" using n by simp
      moreover have "unat (of_nat N :: byte) = N" using N by (simp add: unat_of_nat)
      ultimately show ?thesis by simp
    qed
    have eff: "effects ((testNextOpCode w ^^ N) s)
        = effects ((testNextOpCode w ^^ (N - 1)) s) @ [Write [word_of_int (int n + 1)]]"
      using testNextOpCode_step(1) [OF le inv(2), of w] n inv(1) by simp
    from probe_invariant [OF assms(2,3), of N w] N assms(1)
    have "opcodeToTest ((testNextOpCode w ^^ N) s) = int N + 1"
      "isOpCodeTestMode ((testNextOpCode w ^^ N) s)" by simp_all
    with b eff show ?thesis by blast
  qed
  let ?q = "(testNextOpCode w ^^ 255) s"
  from probe_invariant [OF assms(2,3), of 255 w] have "opcodeToTest ?q > 0xFF" by simp
  from testNextOpCode_finish [OF this, of w]
  have fin: "effects (testNextOpCode w ?q) = effects ?q"
     "opcodeToTest (testNextOpCode w ?q) = 0x01" "\<not> isOpCodeTestMode (testNextOpCode w ?q)"
    by simp_all
  have "(testNextOpCode w ^^ 256) s = testNextOpCode w ?q"
  proof -
    have "(256::nat) = Suc 255" by simp
    then show ?thesis by (simp only: funpow.simps o_apply)
  qed
  with fin step show ?thesis by simp
qed


theorem C4_opcode_discovery_witness:
  "isOpCodeTestMode (toggleOpCodeTestMode App_connected)
   \<and> opcodeToTest (toggleOpCodeTestMode App_connected) = 0x01
   \<and> writeCharRef (toggleOpCodeTestMode App_connected) \<noteq> None
   \<and> (\<exists>b. unat b = 255
         \<and> effects ((testNextOpCode quiet_world ^^ 255) (toggleOpCodeTestMode App_connected))
            = effects ((testNextOpCode quiet_world ^^ 254) (toggleOpCodeTestMode App_connected))
                @ [Write [b]])
   \<and> opcodeToTest ((testNextOpCode quiet_world ^^ 255) (toggleOpCodeTestMode App_connected)) = 256
   \<and> isOpCodeTestMode ((testNextOpCode quiet_world ^^ 255) (toggleOpCodeTestMode App_connected))
   \<and> effects ((testNextOpCode quiet_world ^^ 256) (toggleOpCodeTestMode App_connected))
       = effects ((testNextOpCode quiet_world ^^ 255) (toggleOpCodeTestMode App_connected))
   \<and> \<not> isOpCodeTestMode ((testNextOpCode quiet_world ^^ 256) (toggleOpCodeTestMode App_connected))
   \<and> opcodeToTest ((testNextOpCode quiet_world ^^ 256) (toggleOpCodeTestMode App_connected)) = 0x01"
proof -
  let ?s = "toggleOpCodeTestMode App_connected"
  have a: "isOpCodeTestMode ?s" by code_simp
  have b: "opcodeToTest ?s = 0x01" by code_simp
  have c: "writeCharRef ?s \<noteq> None" by code_simp
  note th = C4_opcode_discovery [OF a b c, of quiet_world]
  from th have "1 \<le> (255::nat) \<and> (255::nat) \<le> 255 \<longrightarrow>
            (\<exists>b. unat b = (255::nat)
               \<and> effects ((testNextOpCode quiet_world ^^ 255) ?s)
                   = effects ((testNextOpCode quiet_world ^^ (255 - 1)) ?s) @ [Write [b]])
            \<and> opcodeToTest ((testNextOpCode quiet_world ^^ 255) ?s) = int 255 + 1
            \<and> isOpCodeTestMode ((testNextOpCode quiet_world ^^ 255) ?s)"
    by blast
  then have d: "(\<exists>b. unat b = (255::nat)
               \<and> effects ((testNextOpCode quiet_world ^^ 255) ?s)
                   = effects ((testNextOpCode quiet_world ^^ 254) ?s) @ [Write [b]])
            \<and> opcodeToTest ((testNextOpCode quiet_world ^^ 255) ?s) = 256
            \<and> isOpCodeTestMode ((testNextOpCode quiet_world ^^ 255) ?s)"
    by simp
  from th have e: "effects ((testNextOpCode quiet_world ^^ 256) ?s)
        = effects ((testNextOpCode quiet_world ^^ 255) ?s)
       \<and> \<not> isOpCodeTestMode ((testNextOpCode quiet_world ^^ 256) ?s)
       \<and> opcodeToTest ((testNextOpCode quiet_world ^^ 256) ?s) = 0x01"
    by blast
  from a b c d e show ?thesis by blast
qed

text \<open>
  The claim as it was stated fails in three places. After 255 steps the mode has not
  switched itself off: it is active with the counter at 0x100. A second click before the
  first write has settled runs a callback that still holds the counter 0x01: the byte 01
  is sent twice, the counter ends at 0x03 and the byte 02 is never sent. And when the
  link has gone while the mode is active, a step sends nothing and still counts.
\<close>

theorem C4_opcode_discovery_counterexample:
  "isOpCodeTestMode ((testNextOpCode quiet_world ^^ 255) (toggleOpCodeTestMode App_connected))
   \<and> opcodeToTest ((testNextOpCode quiet_world ^^ 255) (toggleOpCodeTestMode App_connected)) = 0x100
   \<and> opcodeToTest (snd (testNextOpCode_click quiet_world 0x01 (toggleOpCodeTestMode App_connected)))
       = 0x01
   \<and> drop (length (effects App_connected))
         (effects (overlapping_probes quiet_world (toggleOpCodeTestMode App_connected)))
       = [Write [0x01], Write [0x01]]
   \<and> opcodeToTest (overlapping_probes quiet_world (toggleOpCodeTestMode App_connected)) = 0x03
   \<and> isOpCodeTestMode (disconnect quiet_world (toggleOpCodeTestMode App_connected))
   \<and> effects (testNextOpCode quiet_world (disconnect quiet_world (toggleOpCodeTestMode App_connected)))
       = effects (disconnect quiet_world (toggleOpCodeTestMode App_connected))
   \<and> opcodeToTest (testNextOpCode quiet_world (disconnect quiet_world (toggleOpCodeTestMode App_connected)))
       = 0x02"
proof -
  let ?s = "toggleOpCodeTestMode App_connected"
  have a: "isOpCodeTestMode ?s" by code_simp
  have b: "opcodeToTest ?s = 0x01" by code_simp
  have c: "writeCharRef ?s \<noteq> None" by code_simp
  from probe_invariant [OF b c, of 255 quiet_world] a
  have after: "isOpCodeTestMode ((testNextOpCode quiet_world ^^ 255) ?s)"
    "opcodeToTest ((testNextOpCode quiet_world ^^ 255) ?s) = 0x100"
    by simp_all
  have closure: "opcodeToTest (snd (testNextOpCode_click quiet_world 0x01 ?s)) = 0x01"
    by code_simp
  have twice: "drop (length (effects App_connected)) (effects (overlapping_probes quiet_world ?s))
      = [Write [0x01], Write [0x01]]"
    "opcodeToTest (overlapping_probes quiet_world ?s) = 0x03"
    by code_simp+
  have gone: "isOpCodeTestMode (disconnect quiet_world ?s)"
    "effects (testNextOpCode quiet_world (disconnect quiet_world ?s))
       = effects (disconnect quiet_world ?s)"
    "opcodeToTest (testNextOpCode quiet_world (disconnect quiet_world ?s)) = 0x02"
    by code_simp+
  from after closure twice gone show ?thesis by simp
qed

section \<open>Properties of the notification handler\<close>

lemma logs_addLog:
  "\<exists>e. logs (addLog w ty m d s) = logs s @ [e] \<and> log_type e = ty \<and> message e = m \<and> log_data e = d"
  by (simp add: addLog_def Let_def)

lemma handleNotifications_one_entry:
  "\<exists>e. logs (handleNotifications w P (Some data) s) = logs s @ [e]
        \<and> (log_type e = SPELL \<or> log_type e = RAW \<and> log_data e = Some (rawHex data))"
proof -
  let ?raw = "addLog w RAW (str ''Raw Wand Data'') (Some (rawHex data)) s"
  obtain r where r: "logs ?raw = logs s @ [r]" "log_type r = RAW" "log_data r = Some (rawHex data)"
    using logs_addLog [of w RAW "str ''Raw Wand Data''" "Some (rawHex data)" s] by blast
  show ?thesis
  proof (cases "handleNotifications w P (Some data) s = ?raw")
    case True
    with r show ?thesis by auto
  next
    case False
    then obtain m d where "handleNotifications w P (Some data) s = addLog w SPELL m d s"
      by (auto simp: handleNotifications_def Let_def split: option.splits if_splits)
    then show ?thesis
      using logs_addLog [of w SPELL m d s] by auto
  qed
qed

lemma decode_malformed: "TextDecoder_decode [0xFF, 0xFE, 0xFD] = [0xFFFD, 0xFFFD, 0xFFFD]"
  by (simp add: TextDecoder_decode_def utf16_def)

text \<open>
  Claim C7, at the payload 00 00 00 00 FF FE FD. The handler does return for every
  payload, with one new entry (the lemma above). But the bytes FF FE FD are no UTF-8
  text, and the claim, like the comment in the \<open>catch\<close> block of the handler, has a
  decoding error fall through to the raw entry. The decoder is made without the
  \<open>fatal\<close> option: it throws for no input and decodes each of the three bytes to
  U+FFFD, so the \<open>catch\<close> block is never entered and the payload is logged as a spell
  whose name is three replacement characters.
\<close>

theorem C7_malformed_text_is_spell:
  "decode (browser up) bytes \<noteq> None
   \<and> TextDecoder_decode (drop 4 [0, 0, 0, 0, 0xFF, 0xFE, 0xFD]) = [0xFFFD, 0xFFFD, 0xFFFD]
   \<and> logs (handleNotifications quiet_world (browser up) (Some [0, 0, 0, 0, 0xFF, 0xFE, 0xFD]) App_init)
     = [\<lparr>log_id = 0, log_type = SPELL,
         message = [0x2728] @ str '' Spell Detected: '' @ up [0xFFFD, 0xFFFD, 0xFFFD],
         log_data = Some (str ''RAW: 00000000fffefd''), timestamp = []\<rparr>]"
proof -
  have total: "decode (browser up) bytes \<noteq> None"
    by (simp add: browser_def)
  have name: "filter (\<lambda>c. c \<noteq> 0x0000) (trim [0xFFFD, 0xFFFD, 0xFFFD]) = [0xFFFD, 0xFFFD, 0xFFFD]"
    by (simp add: trim_def isWhiteSpace_def)
  have hex: "rawHex [0, 0, 0, 0, 0xFF, 0xFE, 0xFD] = str ''00000000fffefd''"
    by code_simp
  have entry: "logs (handleNotifications quiet_world (browser up) (Some [0, 0, 0, 0, 0xFF, 0xFE, 0xFD]) App_init)
     = [\<lparr>log_id = 0, log_type = SPELL,
         message = [0x2728] @ str '' Spell Detected: '' @ up [0xFFFD, 0xFFFD, 0xFFFD],
         log_data = Some (str ''RAW: 00000000fffefd''), timestamp = []\<rparr>]"
    by (simp add: handleNotifications_def browser_def Let_def SPELL_MIN_LEN_def
        SPELL_DATA_HEADER_LEN_def decode_malformed name hex addLog_def quiet_world_def
        App_init_def str_def)
  from total entry show ?thesis by (simp add: decode_malformed)
qed

section \<open>Properties of the opcode table\<close>

lemma getOpCode_setOpCode:
  "getOpCode k' (setOpCode k v t) = (if k' = k then v else getOpCode k' t)"
  by (cases k; cases k') simp_all

lemma valid_setOpCode:
  "valid_opCodes t \<Longrightarrow> 0 \<le> v \<Longrightarrow> v \<le> 255 \<Longrightarrow> valid_opCodes (setOpCode k v t)"
  by (cases k) (simp_all add: valid_opCodes_def)

lemma hd_command_bytes: "hd (command_bytes t c) = Num (getOpCode (kind c) t)"
  by (cases c) (simp_all add: Let_def)

text \<open>
  Claim C9. Typing into an opcode input changes the table only when the text, after an
  optional \<open>0x\<close>, parses to a number from 0 to 255. Text that does not parse to a
  number and numbers out of range leave the whole state as it was. An accepted value is
  stored under its kind and nothing else changes, so a table of bytes stays a table of
  bytes. What was sent before is untouched, and the next encoding of a command of that
  kind starts with the new opcode.
\<close>

theorem C9_set_opcode:
  assumes "hexVal = (if startsWith (str ''0x'') val then substring_from 2 val else val)"
  shows "(parseInt16 hexVal = NaN \<longrightarrow> editOpCode k val s = s)
       \<and> (\<forall>v. parseInt16 hexVal = Num v \<and> (v < 0 \<or> 255 < v) \<longrightarrow> editOpCode k val s = s)
       \<and> (\<forall>v. parseInt16 hexVal = Num v \<and> 0 \<le> v \<and> v \<le> 255 \<longrightarrow>
             getOpCode k (opCodes (editOpCode k val s)) = v
             \<and> (\<forall>k'. k' \<noteq> k \<longrightarrow>
                  getOpCode k' (opCodes (editOpCode k val s)) = getOpCode k' (opCodes s))
             \<and> editOpCode k val s = s\<lparr>opCodes := opCodes (editOpCode k val s)\<rparr>
             \<and> (\<forall>c. kind c = k \<longrightarrow> hd (command_bytes (opCodes (editOpCode k val s)) c) = Num v))
       \<and> (valid_opCodes (opCodes s) \<longrightarrow> valid_opCodes (opCodes (editOpCode k val s)))
       \<and> effects (editOpCode k val s) = effects s"
proof -
  have rej: "editOpCode k val s = s" if "parseInt16 hexVal = NaN"
    using that assms by (simp add: editOpCode_def OpCodeInput_onChange_def Let_def)
  have out: "editOpCode k val s = s" if "parseInt16 hexVal = Num v \<and> (v < 0 \<or> 255 < v)" for v
    using that assms by (auto simp: editOpCode_def OpCodeInput_onChange_def Let_def)
  have acc: "editOpCode k val s = s\<lparr>opCodes := setOpCode k v (opCodes s)\<rparr>"
    if "parseInt16 hexVal = Num v \<and> 0 \<le> v \<and> v \<le> 255" for v
    using that assms by (auto simp: editOpCode_def OpCodeInput_onChange_def Let_def)
  have ok: "getOpCode k (opCodes (editOpCode k val s)) = v
             \<and> (\<forall>k'. k' \<noteq> k \<longrightarrow>
                  getOpCode k' (opCodes (editOpCode k val s)) = getOpCode k' (opCodes s))
             \<and> editOpCode k val s = s\<lparr>opCodes := opCodes (editOpCode k val s)\<rparr>
             \<and> (\<forall>c. kind c = k \<longrightarrow> hd (command_bytes (opCodes (editOpCode k val s)) c) = Num v)"
    if h: "parseInt16 hexVal = Num v \<and> 0 \<le> v \<and> v \<le> 255" for v
    by (simp add: acc [OF h] getOpCode_setOpCode hd_command_bytes)
  have inv: "valid_opCodes (opCodes (editOpCode k val s))" if v: "valid_opCodes (opCodes s)"
  proof (cases "parseInt16 hexVal")
    case NaN
    with rej v show ?thesis by simp
  next
    case (Num x)
    show ?thesis
    proof (cases "0 \<le> x \<and> x \<le> 255")
      case True
      with Num acc [of x] v show ?thesis by (simp add: valid_setOpCode)
    next
      case False
      with Num out [of x] v show ?thesis by auto
    qed
  qed
  have eff: "effects (editOpCode k val s) = effects s"
    by (simp add: editOpCode_def split: option.splits)
  from rej out ok inv eff show ?thesis by blast
qed

theorem C9_set_opcode_witness:
  "parseInt16 (str ''1F'') = Num 31
   \<and> ClearLeds (opCodes (editOpCode CLEAR_LEDS (str ''0x1F'') App_init)) = 31
   \<and> Buzz (opCodes (editOpCode CLEAR_LEDS (str ''0x1F'') App_init)) = 0xBB
   \<and> command_bytes (opCodes (editOpCode CLEAR_LEDS (str ''0x1F'') App_init)) (ClearLedsCommand []) = [Num 31]
   \<and> parseInt16 (str ''1FF'') = Num 511
   \<and> editOpCode BUZZ (str ''1FF'') App_init = App_init
   \<and> parseInt16 (str ''zz'') = NaN
   \<and> editOpCode CHANGE_LED (str ''zz'') App_init = App_init
   \<and> valid_opCodes (opCodes App_init)
   \<and> valid_opCodes (opCodes (editOpCode CLEAR_LEDS (str ''0x1F'') App_init))"
proof -
  have p1: "parseInt16 (str ''1F'') = Num 31" by code_simp
  have p2: "parseInt16 (str ''1FF'') = Num 511" by code_simp
  have p3: "parseInt16 (str ''zz'') = NaN" by code_simp
  have h1: "str ''1F'' = (if startsWith (str ''0x'') (str ''0x1F'') then substring_from 2 (str ''0x1F'') else str ''0x1F'')"
    by code_simp
  have h2: "str ''1FF'' = (if startsWith (str ''0x'') (str ''1FF'') then substring_from 2 (str ''1FF'') else str ''1FF'')"
    by code_simp
  have h3: "str ''zz'' = (if startsWith (str ''0x'') (str ''zz'') then substring_from 2 (str ''zz'') else str ''zz'')"
    by code_simp
  have v0: "valid_opCodes (opCodes App_init)" by code_simp
  have b0: "Buzz (opCodes App_init) = 0xBB" by code_simp
  note t1 = C9_set_opcode [OF h1, of CLEAR_LEDS App_init]
  note t2 = C9_set_opcode [OF h2, of BUZZ App_init]
  note t3 = C9_set_opcode [OF h3, of CHANGE_LED App_init]
  let ?s = "editOpCode CLEAR_LEDS (str ''0x1F'') App_init"
  from t1 p1 have a: "getOpCode CLEAR_LEDS (opCodes ?s) = 31"
    and b: "\<forall>k'. k' \<noteq> CLEAR_LEDS \<longrightarrow> getOpCode k' (opCodes ?s) = getOpCode k' (opCodes App_init)"
    and c: "\<forall>c. kind c = CLEAR_LEDS \<longrightarrow> hd (command_bytes (opCodes ?s) c) = Num 31"
    by simp_all
  from b have b': "Buzz (opCodes ?s) = 0xBB" using b0 by (metis CommandType.distinct(1) getOpCode.simps(2))
  from c have c': "command_bytes (opCodes ?s) (ClearLedsCommand []) = [Num 31]"
    by (metis command_bytes.simps(1) kind.simps(1) list.sel(1))
  from t1 v0 have v1: "valid_opCodes (opCodes ?s)" by blast
  from t2 p2 have r2: "editOpCode BUZZ (str ''1FF'') App_init = App_init" by simp
  from t3 p3 have r3: "editOpCode CHANGE_LED (str ''zz'') App_init = App_init" by simp
  from a have a': "ClearLeds (opCodes ?s) = 31" by simp
  from p1 a' b' c' p2 r2 p3 r3 v0 v1 show ?thesis by blast
qed

section \<open>Properties of the sniffer setup\<close>

lemma subscribe_chars_eq:
  "subscribe_chars cs (s, n) =
     (s\<lparr>subscribedCharsRef := subscribedCharsRef s @ filter subscribes cs,
        events := events s @ concat (map subscribe_events cs)\<rparr>,
      n + length (filter subscribes cs))"
proof (induction cs arbitrary: s n)
  case Nil
  show ?case by simp
next
  case (Cons c cs)
  show ?case
  proof (cases "eligible c")
    case False
    then show ?thesis
      by (simp add: Cons.IH subscribes_def refuses_def subscribe_events_def)
  next
    case True
    show ?thesis
    proof (cases "startNotifications_result c")
      case (Fulfilled u)
      with True show ?thesis
        by (simp add: Cons.IH subscribes_def refuses_def subscribe_events_def call_def)
    next
      case (Rejected e)
      with True show ?thesis
        by (simp add: Cons.IH subscribes_def refuses_def subscribe_events_def call_def)
    qed
  qed
qed

lemma subscribe_services_eq:
  "subscribe_services (map Fulfilled css) (s, n) =
     Inr (s\<lparr>subscribedCharsRef := subscribedCharsRef s @ filter subscribes (concat css),
            events := events s
              @ concat (map (\<lambda>cs. Call GetCharacteristics # concat (map subscribe_events cs)) css)\<rparr>,
          n + length (filter subscribes (concat css)))"
proof (induction css arbitrary: s n)
  case Nil
  show ?case by simp
next
  case (Cons cs css)
  show ?case
    by (simp add: subscribe_chars_eq Cons.IH call_def)
qed

lemma count_errors_chars:
  "length (filter (\<lambda>e. e = Call ConsoleError) (concat (map subscribe_events cs)))
     = length (filter refuses cs)"
  by (induction cs) (auto simp: subscribe_events_def subscribes_def refuses_def)

lemma count_errors_services:
  "length (filter (\<lambda>e. e = Call ConsoleError)
       (concat (map (\<lambda>cs. Call GetCharacteristics # concat (map subscribe_events cs)) css)))
     = length (filter refuses (concat css))"
  by (induction css) (simp_all add: count_errors_chars)

lemma startSniffing_try_eq:
  assumes "sn_requestDevice env = Fulfilled dev" and "has_gatt dev"
    and "sn_gatt_connect env = Fulfilled ()"
    and "getPrimaryServices env = Fulfilled (map Fulfilled css)"
  shows "startSniffing_try env s =
     (let s5 = s\<lparr>sn_deviceRef := Some dev, sn_gatt_connected := True, status := Connecting,
                  subscribedCharsRef := subscribedCharsRef s @ filter subscribes (concat css),
                  events := events s
                    @ [Status Scanning, Call RequestDevice, Call AddDisconnectListener,
                       Status Connecting, Call GattConnect, Call GetPrimaryServices]
                    @ concat (map (\<lambda>cs. Call GetCharacteristics # concat (map subscribe_events cs)) css)\<rparr>
      in if filter subscribes (concat css) \<noteq> [] then Inr (setStatus Listening s5)
         else Inr (stopSniffing (call Alert (setStatus Error s5))))"
  using assms
  by (simp add: startSniffing_try_def Let_def subscribe_services_eq call_def setStatus_def)


text \<open>
  Claim C10. The wand is found, connects and lists its services and their
  characteristics. A subscription that fails is logged with \<open>console.error\<close> and the
  loop goes on. If at least one characteristic subscribed, the sniffer ends listening,
  still connected, holding exactly the characteristics that subscribed, and never shows
  the error status. If none subscribed, the sniffer shows the error status and an alert
  and then tears down: it removes the disconnect listener, disconnects, clears the
  subscriptions and the device and ends disconnected.
\<close>

theorem C10_sniffer_subscribe:
  assumes "sn_bluetooth env"
    and "sn_requestDevice env = Fulfilled dev" and "has_gatt dev"
    and "sn_gatt_connect env = Fulfilled ()"
    and "getPrimaryServices env = Fulfilled (map Fulfilled css)"
    and "subscribedCharsRef s = []"
  shows "(filter subscribes (concat css) \<noteq> [] \<longrightarrow>
            status (startSniffing env s) = Listening
            \<and> subscribedCharsRef (startSniffing env s) = filter subscribes (concat css)
            \<and> sn_deviceRef (startSniffing env s) = Some dev
            \<and> sn_gatt_connected (startSniffing env s)
            \<and> (\<exists>new. events (startSniffing env s) = events s @ new
                  \<and> Status Error \<notin> set new \<and> Call GattDisconnect \<notin> set new
                  \<and> length (filter (\<lambda>e. e = Call ConsoleError) new)
                      = length (filter refuses (concat css))))
       \<and> (filter subscribes (concat css) = [] \<longrightarrow>
            status (startSniffing env s) = Disconnected
            \<and> subscribedCharsRef (startSniffing env s) = []
            \<and> sn_deviceRef (startSniffing env s) = None
            \<and> \<not> sn_gatt_connected (startSniffing env s)
            \<and> (\<exists>new. events (startSniffing env s)
                    = events s @ new @ [Status Error, Call Alert, Call RemoveDisconnectListener,
                                        Call GattDisconnect, Status Disconnected, Call ConsoleLog]
                  \<and> length (filter (\<lambda>e. e = Call ConsoleError) new)
                      = length (filter refuses (concat css))))"
proof -
  let ?svc = "concat (map (\<lambda>cs. Call GetCharacteristics # concat (map subscribe_events cs)) css)"
  let ?pre = "[Status Scanning, Call RequestDevice, Call AddDisconnectListener,
               Status Connecting, Call GattConnect, Call GetPrimaryServices]"
  let ?s5 = "s\<lparr>sn_deviceRef := Some dev, sn_gatt_connected := True, status := Connecting,
                  subscribedCharsRef := subscribedCharsRef s @ filter subscribes (concat css),
                  events := events s @ ?pre @ ?svc\<rparr>"
  have cnt: "length (filter (\<lambda>e. e = Call ConsoleError) (?pre @ ?svc))
      = length (filter refuses (concat css))"
    by (simp add: count_errors_services)
  have none: "Status Error \<notin> set ?svc" "Call GattDisconnect \<notin> set ?svc"
    by (auto simp: subscribe_events_def split: if_splits)
  have tried: "startSniffing_try env s =
     (if filter subscribes (concat css) \<noteq> [] then Inr (setStatus Listening ?s5)
      else Inr (stopSniffing (call Alert (setStatus Error ?s5))))"
    using startSniffing_try_eq [OF assms(2-5), of s] by (simp add: Let_def)
  have listening: "status (startSniffing env s) = Listening
            \<and> subscribedCharsRef (startSniffing env s) = filter subscribes (concat css)
            \<and> sn_deviceRef (startSniffing env s) = Some dev
            \<and> sn_gatt_connected (startSniffing env s)
            \<and> (\<exists>new. events (startSniffing env s) = events s @ new
                  \<and> Status Error \<notin> set new \<and> Call GattDisconnect \<notin> set new
                  \<and> length (filter (\<lambda>e. e = Call ConsoleError) new)
                      = length (filter refuses (concat css)))"
    if ok: "filter subscribes (concat css) \<noteq> []"
  proof -
    from ok tried assms(1) have eq: "startSniffing env s = setStatus Listening ?s5"
      by (simp add: startSniffing_def)
    have ev: "events (setStatus Listening ?s5) = events s @ (?pre @ ?svc @ [Status Listening])"
      by (simp add: setStatus_def)
    have "Status Error \<notin> set (?pre @ ?svc @ [Status Listening])"
      "Call GattDisconnect \<notin> set (?pre @ ?svc @ [Status Listening])"
      "length (filter (\<lambda>e. e = Call ConsoleError) (?pre @ ?svc @ [Status Listening]))
         = length (filter refuses (concat css))"
      using none cnt by simp_all
    with ev have "\<exists>new. events (setStatus Listening ?s5) = events s @ new
                  \<and> Status Error \<notin> set new \<and> Call GattDisconnect \<notin> set new
                  \<and> length (filter (\<lambda>e. e = Call ConsoleError) new)
                      = length (filter refuses (concat css))"
      by blast
    then show ?thesis
      using assms(6) by (simp add: eq setStatus_def)
  qed
  have failed: "status (startSniffing env s) = Disconnected
            \<and> subscribedCharsRef (startSniffing env s) = []
            \<and> sn_deviceRef (startSniffing env s) = None
            \<and> \<not> sn_gatt_connected (startSniffing env s)
            \<and> (\<exists>new. events (startSniffing env s)
                    = events s @ new @ [Status Error, Call Alert, Call RemoveDisconnectListener,
                                        Call GattDisconnect, Status Disconnected, Call ConsoleLog]
                  \<and> length (filter (\<lambda>e. e = Call ConsoleError) new)
                      = length (filter refuses (concat css)))"
    if zero: "filter subscribes (concat css) = []"
  proof -
    from zero tried assms(1)
    have eq: "startSniffing env s = stopSniffing (call Alert (setStatus Error ?s5))"
      by (simp add: startSniffing_def)
    have ev: "events (stopSniffing (call Alert (setStatus Error ?s5)))
        = events s @ (?pre @ ?svc) @ [Status Error, Call Alert, Call RemoveDisconnectListener,
                                        Call GattDisconnect, Status Disconnected, Call ConsoleLog]"
      using zero assms(3,6)
      by (simp add: stopSniffing_def Let_def call_def setStatus_def device_connected_def)
    with cnt have "\<exists>new. events (stopSniffing (call Alert (setStatus Error ?s5)))
                    = events s @ new @ [Status Error, Call Alert, Call RemoveDisconnectListener,
                                        Call GattDisconnect, Status Disconnected, Call ConsoleLog]
                  \<and> length (filter (\<lambda>e. e = Call ConsoleError) new)
                      = length (filter refuses (concat css))"
      by blast
    moreover have "status (stopSniffing (call Alert (setStatus Error ?s5))) = Disconnected
        \<and> subscribedCharsRef (stopSniffing (call Alert (setStatus Error ?s5))) = []
        \<and> sn_deviceRef (stopSniffing (call Alert (setStatus Error ?s5))) = None
        \<and> \<not> sn_gatt_connected (stopSniffing (call Alert (setStatus Error ?s5)))"
      using zero assms(3,6)
      by (simp add: stopSniffing_def Let_def call_def setStatus_def device_connected_def)
    ultimately show ?thesis unfolding eq by blast
  qed
  from listening failed show ?thesis by blast
qed


theorem C10_sniffer_subscribe_witness:
  "filter subscribes (concat [[notifying ''a'' False, notifying ''b'' True]]) = [notifying ''b'' True]
   \<and> filter refuses (concat [[notifying ''a'' False, notifying ''b'' True]]) = [notifying ''a'' False]
   \<and> status (startSniffing (wand_with [[notifying ''a'' False, notifying ''b'' True]]) Sniffer_init)
       = Listening
   \<and> subscribedCharsRef (startSniffing (wand_with [[notifying ''a'' False, notifying ''b'' True]]) Sniffer_init)
       = [notifying ''b'' True]
   \<and> filter subscribes (concat [[notifying ''a'' False]]) = []
   \<and> status (startSniffing (wand_with [[notifying ''a'' False]]) Sniffer_init) = Disconnected
   \<and> sn_deviceRef (startSniffing (wand_with [[notifying ''a'' False]]) Sniffer_init) = None
   \<and> \<not> sn_gatt_connected (startSniffing (wand_with [[notifying ''a'' False]]) Sniffer_init)
   \<and> (\<exists>new. events (startSniffing (wand_with [[notifying ''a'' False]]) Sniffer_init)
            = new @ [Status Error, Call Alert, Call RemoveDisconnectListener,
                     Call GattDisconnect, Status Disconnected, Call ConsoleLog]
          \<and> length (filter (\<lambda>e. e = Call ConsoleError) new) = 1)"
proof -
  let ?dev = "\<lparr>dev_name = str ''MCW'', has_gatt = True\<rparr>"
  let ?two = "[[notifying ''a'' False, notifying ''b'' True]]"
  let ?one = "[[notifying ''a'' False]]"
  have env: "sn_bluetooth (wand_with css)" "sn_requestDevice (wand_with css) = Fulfilled ?dev"
    "has_gatt ?dev" "sn_gatt_connect (wand_with css) = Fulfilled ()"
    "getPrimaryServices (wand_with css) = Fulfilled (map Fulfilled css)" for css
    by (simp_all add: wand_with_def)
  have fresh: "subscribedCharsRef Sniffer_init = []" "events Sniffer_init = []"
    by (simp_all add: Sniffer_init_def)
  have el: "eligible (notifying ''a'' False)" "eligible (notifying ''b'' True)"
    by code_simp+
  have sub2: "filter subscribes (concat ?two) = [notifying ''b'' True]"
    and ref2: "filter refuses (concat ?two) = [notifying ''a'' False]"
    and sub1: "filter subscribes (concat ?one) = []"
    and ref1: "filter refuses (concat ?one) = [notifying ''a'' False]"
    using el by (simp_all add: subscribes_def refuses_def notifying_def)
  note t2 = C10_sniffer_subscribe [OF env(1) env(2) env(3) env(4) env(5) fresh(1), of ?two]
  note t1 = C10_sniffer_subscribe [OF env(1) env(2) env(3) env(4) env(5) fresh(1), of ?one]
  from t2 sub2 have l: "status (startSniffing (wand_with ?two) Sniffer_init) = Listening"
    "subscribedCharsRef (startSniffing (wand_with ?two) Sniffer_init) = [notifying ''b'' True]"
    by simp_all
  from t1 sub1 ref1 fresh(2) have f: "status (startSniffing (wand_with ?one) Sniffer_init) = Disconnected"
    "sn_deviceRef (startSniffing (wand_with ?one) Sniffer_init) = None"
    "\<not> sn_gatt_connected (startSniffing (wand_with ?one) Sniffer_init)"
    "\<exists>new. events (startSniffing (wand_with ?one) Sniffer_init)
            = new @ [Status Error, Call Alert, Call RemoveDisconnectListener,
                     Call GattDisconnect, Status Disconnected, Call ConsoleLog]
          \<and> length (filter (\<lambda>e. e = Call ConsoleError) new) = 1"
    by simp_all
  from sub2 ref2 l sub1 f show ?thesis by blast
qed

section \<open>Properties of the teardown\<close>

lemma addLog_link:
  "connectionStatus (addLog w ty m x s) = connectionStatus s"
  "keepAliveIntervalRef (addLog w ty m x s) = keepAliveIntervalRef s"
  "intervals (addLog w ty m x s) = intervals s"
  "deviceRef (addLog w ty m x s) = deviceRef s"
  "gatt_connected (addLog w ty m x s) = gatt_connected s"
  "next_handle (addLog w ty m x s) = next_handle s"
  by (simp_all add: addLog_def Let_def)

lemma emit_link:
  "connectionStatus (emit e s) = connectionStatus s"
  "keepAliveIntervalRef (emit e s) = keepAliveIntervalRef s"
  "intervals (emit e s) = intervals s"
  "deviceRef (emit e s) = deviceRef s"
  "writeCharRef (emit e s) = writeCharRef s"
  "gatt_connected (emit e s) = gatt_connected s"
  "next_handle (emit e s) = next_handle s"
  by (simp_all add: emit_def)

lemma startKeepAlive_fresh:
  assumes "keepAliveIntervalRef s = None" and "intervals s = []"
  shows "keepAliveIntervalRef (startKeepAlive s) = Some (next_handle s)"
    and "intervals (startKeepAlive s) = [next_handle s]"
    and "connectionStatus (startKeepAlive s) = connectionStatus s"
    and "deviceRef (startKeepAlive s) = deviceRef s"
    and "writeCharRef (startKeepAlive s) = writeCharRef s"
    and "gatt_connected (startKeepAlive s) = gatt_connected s"
  using assms by (simp_all add: startKeepAlive_def emit_def Let_def)

lemma connect_establishes:
  assumes "bluetooth env" and "requestDevice env = Fulfilled d" and "has_gatt d"
    and "gatt_connect env = Fulfilled ()" and "getPrimaryService env = Fulfilled ()"
    and "getWriteCharacteristic env = Fulfilled ()" and "getNotifyCharacteristic env = Fulfilled ()"
    and "startNotifications env = Fulfilled ()"
    and "keepAliveIntervalRef s = None" and "intervals s = []"
  shows "Connected_state (connect w env s) (next_handle s) d \<and> gatt_connected (connect w env s)"
proof -
  define s8 where "s8 = emit (AddValueListener NOTIFY_UUID)
      (emit (StartNotifications NOTIFY_UUID)
        (addLog w INFO (str ''Starting notifications...'') None
          ((emit (GetCharacteristic NOTIFY_UUID)
             (emit (GetCharacteristic WRITE_UUID)
               (addLog w INFO (str ''Getting Characteristics...'') None
                 (emit GetPrimaryService
                   (addLog w INFO (str ''Getting Primary Service...'') None
                     ((emit GattConnect
                        (addLog w INFO (str ''Connecting to GATT server...'') None
                          (emit AddDisconnectListener
                            ((emit RequestDevice
                               (addLog w INFO
                                  (str ''Scanning for wand '' @ [0x22] @ TARGET_NAME @ [0x22] @ str ''...'')
                                  None (s\<lparr>connectionStatus := CONNECTING\<rparr>)))
                             \<lparr>deviceRef := Some d\<rparr>))))
                      \<lparr>gatt_connected := True\<rparr>))))))
           \<lparr>writeCharRef := Some WRITE_UUID\<rparr>)))"
  have pre: "keepAliveIntervalRef s8 = None" "intervals s8 = []" "deviceRef s8 = Some d"
    "writeCharRef s8 = Some WRITE_UUID" "gatt_connected s8" "next_handle s8 = next_handle s"
    using assms(9,10) by (simp_all add: s8_def addLog_link addLog_frame emit_link)
  have eq: "connect w env s =
      addLog w INFO (str ''Successfully connected to '' @ dev_name d @ str ''. Wand is active!'') None
        ((startKeepAlive s8)\<lparr>connectionStatus := CONNECTED\<rparr>)"
    using assms(1-8) by (simp add: s8_def connect_def connect_try_def Let_def)
  note k = startKeepAlive_fresh [OF pre(1,2)]
  have "connectionStatus (connect w env s) = CONNECTED"
    "keepAliveIntervalRef (connect w env s) = Some (next_handle s)"
    "intervals (connect w env s) = [next_handle s]"
    "deviceRef (connect w env s) = Some d"
    "writeCharRef (connect w env s) \<noteq> None"
    "gatt_connected (connect w env s)"
    unfolding eq
    by (simp_all add: addLog_link addLog_frame k pre)
  with assms(3) show ?thesis by (simp add: Connected_state_def)
qed

lemma disconnect_connected:
  assumes "Connected_state s h d"
  shows "effects (disconnect w s)
           = effects s @ [ClearInterval h, RemoveDisconnectListener]
               @ (if gatt_connected s then [GattDisconnect] else [])"
    and "keepAliveIntervalRef (disconnect w s) = None"
    and "intervals (disconnect w s) = []"
    and "deviceRef (disconnect w s) = None"
    and "writeCharRef (disconnect w s) = None"
    and "\<not> gatt_connected (disconnect w s)"
    and "connectionStatus (disconnect w s) = DISCONNECTED"
  using assms
  by (simp_all add: Connected_state_def disconnect_def stopKeepAlive_def emit_def addLog_def Let_def)

lemma keepAlive_callback_idle: "intervals s = [] \<Longrightarrow> keepAlive_callback w h s = s"
  by (simp add: keepAlive_callback_def)

text \<open>
  What \<open>disconnect\<close> does from the connected state, in order: it clears the
  keep-alive interval, removes the disconnect listener and disconnects the GATT server if
  it is still connected; the device handle and the write characteristic are cleared and
  the status is \<open>DISCONNECTED\<close>. Afterwards the keep-alive callback does nothing. A
  failed keep-alive write runs the same teardown.
\<close>

lemma disconnect_order:
  assumes "Connected_state s h d"
  shows "effects (disconnect w s)
           = effects s @ [ClearInterval h, RemoveDisconnectListener]
               @ (if gatt_connected s then [GattDisconnect] else [])
       \<and> keepAliveIntervalRef (disconnect w s) = None
       \<and> deviceRef (disconnect w s) = None
       \<and> writeCharRef (disconnect w s) = None
       \<and> \<not> gatt_connected (disconnect w s)
       \<and> connectionStatus (disconnect w s) = DISCONNECTED
       \<and> (\<forall>w' h'. keepAlive_callback w' h' (disconnect w s) = disconnect w s)
       \<and> (\<forall>e. write_result w (length (effects s)) = Rejected e \<longrightarrow>
             effects (keepAlive_callback w h s)
               = effects s @ [Write KEEPALIVE_COMMAND, ConsoleError, ClearInterval h,
                              RemoveDisconnectListener]
                   @ (if gatt_connected s then [GattDisconnect] else [])
             \<and> connectionStatus (keepAlive_callback w h s) = DISCONNECTED
             \<and> writeCharRef (keepAlive_callback w h s) = None
             \<and> intervals (keepAlive_callback w h s) = [])"
proof -
  note d = disconnect_connected [OF assms, of w]
  have idle: "\<forall>w' h'. keepAlive_callback w' h' (disconnect w s) = disconnect w s"
    using d(3) by (simp add: keepAlive_callback_idle)
  have ka: "effects (keepAlive_callback w h s)
               = effects s @ [Write KEEPALIVE_COMMAND, ConsoleError, ClearInterval h,
                              RemoveDisconnectListener]
                   @ (if gatt_connected s then [GattDisconnect] else [])
             \<and> connectionStatus (keepAlive_callback w h s) = DISCONNECTED
             \<and> writeCharRef (keepAlive_callback w h s) = None
             \<and> intervals (keepAlive_callback w h s) = []"
    if r: "write_result w (length (effects s)) = Rejected e" for e
  proof -
    let ?s' = "emit ConsoleError (emit (Write KEEPALIVE_COMMAND) s)"
    have c: "Connected_state ?s' h d" "gatt_connected ?s' = gatt_connected s"
      "effects ?s' = effects s @ [Write KEEPALIVE_COMMAND, ConsoleError]"
      using assms by (simp_all add: Connected_state_def emit_def)
    have "keepAlive_callback w h s = disconnect w ?s'"
      using assms r
      by (auto simp: keepAlive_callback_def Connected_state_def writeValueWithoutResponse_def)
    with disconnect_connected [OF c(1), of w] c(2,3) show ?thesis by simp
  qed
  from d idle ka show ?thesis by blast
qed

lemma unmount_cleanup_first_render:
  "unmount_cleanup w (connectionStatus App_init) s = s"
  by (simp add: unmount_cleanup_def App_init_def)

text \<open>
  Claim C6, on three paths out of the connected state. First, \<open>disconnect\<close> itself:
  from the connected state it makes three calls, and none of them stops the
  notifications or removes their listener, while the teardown of the sniffer does both for
  each characteristic before it disconnects. Second, the timer of a failed connect
  attempt is never cancelled: when the next attempt succeeds within 3000 ms, the timer
  sets the status to \<open>DISCONNECTED\<close> with no teardown at all; the interval is still
  set, the link is up, and the next heartbeat is written. Third, the cleanup at unmount
  tests the status of the first render and so never disconnects.
\<close>

theorem C6_teardown_missed:
  "connectionStatus App_connected = CONNECTED
   \<and> connectionStatus (disconnect quiet_world App_connected) = DISCONNECTED
   \<and> drop (length (effects App_connected)) (effects (disconnect quiet_world App_connected))
       = [ClearInterval 1, RemoveDisconnectListener, GattDisconnect]
   \<and> StopNotifications NOTIFY_UUID \<notin> set (effects (disconnect quiet_world App_connected))
   \<and> RemoveValueListener NOTIFY_UUID \<notin> set (effects (disconnect quiet_world App_connected))
   \<and> status Sniffer_listening = Listening
   \<and> drop (length (events Sniffer_listening)) (events (stopSniffing Sniffer_listening))
       = [Call RemoveDisconnectListener, Call (StopNotifications (str ''b'')),
          Call (RemoveValueListener (str ''b'')), Call GattDisconnect, Status Disconnected,
          Call ConsoleLog]
   \<and> connectionStatus App_reconnected = CONNECTED
   \<and> timeouts App_reconnected = [(3000, DISCONNECTED)]
   \<and> connectionStatus (timeout_callback App_reconnected) = DISCONNECTED
   \<and> effects (timeout_callback App_reconnected) = effects App_reconnected
   \<and> intervals (timeout_callback App_reconnected) = [1]
   \<and> keepAliveIntervalRef (timeout_callback App_reconnected) = Some 1
   \<and> writeCharRef (timeout_callback App_reconnected) = Some WRITE_UUID
   \<and> gatt_connected (timeout_callback App_reconnected)
   \<and> drop (length (effects App_reconnected))
         (effects (keepAlive_callback quiet_world 1 (timeout_callback App_reconnected)))
       = [Write [0x01]]
   \<and> unmount_cleanup quiet_world (connectionStatus App_init) App_connected = App_connected"
proof -
  have own: "connectionStatus App_connected = CONNECTED"
    "connectionStatus (disconnect quiet_world App_connected) = DISCONNECTED"
    "drop (length (effects App_connected)) (effects (disconnect quiet_world App_connected))
       = [ClearInterval 1, RemoveDisconnectListener, GattDisconnect]"
    "StopNotifications NOTIFY_UUID \<notin> set (effects (disconnect quiet_world App_connected))"
    "RemoveValueListener NOTIFY_UUID \<notin> set (effects (disconnect quiet_world App_connected))"
    by code_simp+
  have sibling: "status Sniffer_listening = Listening"
    "drop (length (events Sniffer_listening)) (events (stopSniffing Sniffer_listening))
       = [Call RemoveDisconnectListener, Call (StopNotifications (str ''b'')),
          Call (RemoveValueListener (str ''b'')), Call GattDisconnect, Status Disconnected,
          Call ConsoleLog]"
    by code_simp+
  have stale: "connectionStatus App_reconnected = CONNECTED"
    "timeouts App_reconnected = [(3000, DISCONNECTED)]"
    "connectionStatus (timeout_callback App_reconnected) = DISCONNECTED"
    "effects (timeout_callback App_reconnected) = effects App_reconnected"
    "intervals (timeout_callback App_reconnected) = [1]"
    "keepAliveIntervalRef (timeout_callback App_reconnected) = Some 1"
    "writeCharRef (timeout_callback App_reconnected) = Some WRITE_UUID"
    "gatt_connected (timeout_callback App_reconnected)"
    "drop (length (effects App_reconnected))
         (effects (keepAlive_callback quiet_world 1 (timeout_callback App_reconnected)))
       = [Write [0x01]]"
    by code_simp+
  from own sibling stale unmount_cleanup_first_render [of quiet_world App_connected]
  show ?thesis by simp
qed

section \<open>A spell name that keeps its white space\<close>

lemma decode_ascii3: "TextDecoder_decode [0x00, 0x20, 0x00] = [0x0000, 0x0020, 0x0000]"
  by (simp add: TextDecoder_decode_def utf16_def)

lemma decode_FIRE: "TextDecoder_decode [0x46, 0x49, 0x52, 0x45] = [0x46, 0x49, 0x52, 0x45]"
  by (simp add: TextDecoder_decode_def utf16_def)

lemma decode_FIRE_padded:
  "TextDecoder_decode [0x46, 0x49, 0x52, 0x45, 0x20, 0x00, 0x00]
     = [0x46, 0x49, 0x52, 0x45, 0x20, 0x0000, 0x0000]"
  by (simp add: TextDecoder_decode_def utf16_def)

text \<open>
  Claim C2, at two payloads. In 00 00 00 00 46 49 52 45 20 00 00 the text is FIRE, a
  space and two NULs of padding; with the padding and the surrounding white space
  stripped the name is FIRE. The handler trims first, while the NULs still shield the
  space, and deletes the NULs afterwards: the name it upper-cases is FIRE followed by the
  space. In 00 00 00 00 00 20 00 the text is NUL, space, NUL; stripped, nothing is left,
  and the claim classifies the payload as raw data, but the space survives in the same
  way and the payload is logged as a spell whose name is one space. The two scenarios of
  the claim are evaluated after the theorem; they hold.
\<close>

theorem C2_spell_name_keeps_space:
  "logs (handleNotifications quiet_world (browser up)
           (Some [0, 0, 0, 0, 0x46, 0x49, 0x52, 0x45, 0x20, 0x00, 0x00]) App_init)
     = [\<lparr>log_id = 0, log_type = SPELL,
         message = [0x2728] @ str '' Spell Detected: '' @ up (str ''FIRE ''),
         log_data = Some (str ''RAW: 0000000046495245200000''), timestamp = []\<rparr>]
   \<and> logs (handleNotifications quiet_world (browser up) (Some [0, 0, 0, 0, 0x00, 0x20, 0x00]) App_init)
     = [\<lparr>log_id = 0, log_type = SPELL,
         message = [0x2728] @ str '' Spell Detected: '' @ up (str '' ''),
         log_data = Some (str ''RAW: 00000000002000''), timestamp = []\<rparr>]
   \<and> trim (filter (\<lambda>c. c \<noteq> 0x0000) (TextDecoder_decode [0x46, 0x49, 0x52, 0x45, 0x20, 0x00, 0x00]))
     = str ''FIRE''
   \<and> trim (filter (\<lambda>c. c \<noteq> 0x0000) (TextDecoder_decode [0x00, 0x20, 0x00])) = []"
proof -
  have name1: "filter (\<lambda>c. c \<noteq> 0x0000) (trim [0x46, 0x49, 0x52, 0x45, 0x20, 0x0000, 0x0000])
      = [0x46, 0x49, 0x52, 0x45, 0x20]"
    by (simp add: trim_def isWhiteSpace_def)
  have name2: "filter (\<lambda>c. c \<noteq> 0x0000) (trim [0x0000, 0x0020, 0x0000]) = [0x20]"
    by (simp add: trim_def isWhiteSpace_def)
  have hex: "rawHex [0, 0, 0, 0, 0x46, 0x49, 0x52, 0x45, 0x20, 0x00, 0x00]
      = str ''0000000046495245200000''"
    "rawHex [0, 0, 0, 0, 0x00, 0x20, 0x00] = str ''00000000002000''"
    by code_simp+
  have a: "logs (handleNotifications quiet_world (browser up)
           (Some [0, 0, 0, 0, 0x46, 0x49, 0x52, 0x45, 0x20, 0x00, 0x00]) App_init)
     = [\<lparr>log_id = 0, log_type = SPELL,
         message = [0x2728] @ str '' Spell Detected: '' @ up (str ''FIRE ''),
         log_data = Some (str ''RAW: 0000000046495245200000''), timestamp = []\<rparr>]"
    by (simp add: handleNotifications_def browser_def Let_def SPELL_MIN_LEN_def
        SPELL_DATA_HEADER_LEN_def decode_FIRE_padded name1 hex addLog_def quiet_world_def
        App_init_def str_def)
  have b: "logs (handleNotifications quiet_world (browser up) (Some [0, 0, 0, 0, 0x00, 0x20, 0x00]) App_init)
     = [\<lparr>log_id = 0, log_type = SPELL,
         message = [0x2728] @ str '' Spell Detected: '' @ up (str '' ''),
         log_data = Some (str ''RAW: 00000000002000''), timestamp = []\<rparr>]"
    by (simp add: handleNotifications_def browser_def Let_def SPELL_MIN_LEN_def
        SPELL_DATA_HEADER_LEN_def decode_ascii3 name2 hex addLog_def quiet_world_def App_init_def
        str_def)
  have c: "trim (filter (\<lambda>c. c \<noteq> 0x0000) (TextDecoder_decode [0x46, 0x49, 0x52, 0x45, 0x20, 0x00, 0x00]))
     = str ''FIRE''"
    by (simp add: decode_FIRE_padded trim_def isWhiteSpace_def str_def)
  have d: "trim (filter (\<lambda>c. c \<noteq> 0x0000) (TextDecoder_decode [0x00, 0x20, 0x00])) = []"
    by (simp add: decode_ascii3 trim_def isWhiteSpace_def)
  from a b c d show ?thesis by simp
qed

lemma handleNotifications_scenarios:
  "logs (handleNotifications quiet_world (browser up) (Some [0, 0, 0, 0, 0x46, 0x49, 0x52, 0x45]) App_init)
     = [\<lparr>log_id = 0, log_type = SPELL,
         message = [0x2728] @ str '' Spell Detected: '' @ up (str ''FIRE''),
         log_data = Some (str ''RAW: 0000000046495245''), timestamp = []\<rparr>]"
  "logs (handleNotifications quiet_world (browser up) (Some [0x01, 0x02]) App_init)
     = [\<lparr>log_id = 0, log_type = RAW, message = str ''Raw Wand Data'',
         log_data = Some (str ''0102''), timestamp = []\<rparr>]"
proof -
  have name: "filter (\<lambda>c. c \<noteq> 0x0000) (trim [0x46, 0x49, 0x52, 0x45]) = [0x46, 0x49, 0x52, 0x45]"
    by (simp add: trim_def isWhiteSpace_def)
  have hex: "rawHex [0, 0, 0, 0, 0x46, 0x49, 0x52, 0x45] = str ''0000000046495245''"
    "rawHex [0x01, 0x02] = str ''0102''"
    by code_simp+
  show "logs (handleNotifications quiet_world (browser up) (Some [0, 0, 0, 0, 0x46, 0x49, 0x52, 0x45]) App_init)
     = [\<lparr>log_id = 0, log_type = SPELL,
         message = [0x2728] @ str '' Spell Detected: '' @ up (str ''FIRE''),
         log_data = Some (str ''RAW: 0000000046495245''), timestamp = []\<rparr>]"
    by (simp add: handleNotifications_def browser_def Let_def SPELL_MIN_LEN_def
        SPELL_DATA_HEADER_LEN_def decode_FIRE name hex addLog_def quiet_world_def App_init_def
        str_def)
  show "logs (handleNotifications quiet_world (browser up) (Some [0x01, 0x02]) App_init)
     = [\<lparr>log_id = 0, log_type = RAW, message = str ''Raw Wand Data'',
         log_data = Some (str ''0102''), timestamp = []\<rparr>]"
    by (simp add: handleNotifications_def Let_def SPELL_MIN_LEN_def hex addLog_def
        quiet_world_def App_init_def)
qed

section \<open>The size and the identifiers of the logs\<close>

lemma length_App_addLog_funpow:
  "length (logs ((addLog w ty m d ^^ n) s)) = length (logs s) + n"
  by (induction n) (simp_all add: addLog_def Let_def)

lemma length_Sniffer_addLog:
  "length (sn_logs (Sniffer_addLog t u d s)) = min (length (sn_logs s)) 200 + 1"
  by (simp add: Sniffer_addLog_def slice_last_def)

lemma length_Sniffer_addLog_funpow:
  "length (sn_logs ((Sniffer_addLog t u d ^^ n) Sniffer_init)) = min n 201"
proof (induction n)
  case 0
  show ?case by (simp add: Sniffer_init_def)
next
  case (Suc n)
  then show ?case by (simp add: length_Sniffer_addLog)
qed

text \<open>
  Claim C5, after 201 appends. The log of the sniffer keeps the last 200 entries and adds
  the new one, so it holds 201 entries; the log of the controller is never truncated and
  holds as many entries as were appended. Two entries appended within one millisecond
  get identifiers in the order of their random parts, here decreasing.
\<close>

theorem C5_log_exceeds_200:
  "length (sn_logs ((Sniffer_addLog t u d ^^ 201) Sniffer_init)) = 201
   \<and> length (logs ((addLog w ty m x ^^ 201) App_init)) = 201
   \<and> length (logs ((addLog w ty m x ^^ 1000) App_init)) = 1000
   \<and> map sn_id (sn_logs
        (Sniffer_addLog \<lparr>date_now = 1000, math_random = 1 / 10, time_string = ts\<rparr> u d
          (Sniffer_addLog \<lparr>date_now = 1000, math_random = 9 / 10, time_string = ts\<rparr> u d
            Sniffer_init)))
       = [1000 + 9 / 10, 1000 + 1 / 10]"
proof -
  have a: "length (sn_logs ((Sniffer_addLog t u d ^^ 201) Sniffer_init)) = 201"
    by (simp add: length_Sniffer_addLog_funpow)
  have b: "length (logs ((addLog w ty m x ^^ 201) App_init)) = 201"
    "length (logs ((addLog w ty m x ^^ 1000) App_init)) = 1000"
    by (simp_all add: length_App_addLog_funpow App_init_def)
  have c: "map sn_id (sn_logs
        (Sniffer_addLog \<lparr>date_now = 1000, math_random = 1 / 10, time_string = ts\<rparr> u d
          (Sniffer_addLog \<lparr>date_now = 1000, math_random = 9 / 10, time_string = ts\<rparr> u d
            Sniffer_init)))
       = [1000 + 9 / 10, 1000 + 1 / 10]"
    by (simp add: Sniffer_addLog_def Sniffer_init_def slice_last_def)
  from a b c show ?thesis by simp
qed

section \<open>Cancelling the device chooser\<close>

text \<open>
  Claim C8, when the chooser is cancelled. \<open>connect\<close> of the controller treats
  \<open>NotFoundError\<close> like every other failure: it logs an error, enters \<open>ERROR\<close>
  and returns to \<open>DISCONNECTED\<close> when the 3000 ms timer fires. The sniffer, on the
  same answer, goes straight to \<open>Disconnected\<close> and never shows the error status.
\<close>

theorem C8_cancel_enters_error:
  "connectionStatus (connect quiet_world (wand_env\<lparr>requestDevice := Rejected NotFoundError\<rparr>) App_init)
     = ERROR
   \<and> map log_type (logs (connect quiet_world (wand_env\<lparr>requestDevice := Rejected NotFoundError\<rparr>) App_init))
     = [INFO, ERROR_LOG]
   \<and> timeouts (connect quiet_world (wand_env\<lparr>requestDevice := Rejected NotFoundError\<rparr>) App_init)
     = [(3000, DISCONNECTED)]
   \<and> connectionStatus (timeout_callback
        (connect quiet_world (wand_env\<lparr>requestDevice := Rejected NotFoundError\<rparr>) App_init))
     = DISCONNECTED
   \<and> events (startSniffing ((wand_with [])\<lparr>sn_requestDevice := Rejected NotFoundError\<rparr>) Sniffer_init)
     = [Status Scanning, Call RequestDevice, Call ConsoleError, Status Disconnected]"
  by code_simp

end
